theory Spec2Isabelle
  imports Complex_Main "HOL-Library.Word"
begin

section \<open>JavaScript data\<close>

text \<open>
  A JavaScript string is a sequence of UTF-16 code units; the regular expressions of the
  source carry no \<open>u\<close> flag, so they test code units one at a time. Language codes, error
  messages and log contexts are ASCII and are kept as \<open>string\<close>.
\<close>

type_synonym code_unit = "16 word"
type_synonym jsstring = "code_unit list"

definition ascii :: "string \<Rightarrow> jsstring" where
  "ascii s = map (\<lambda>c. word_of_nat (of_char c)) s"

text \<open>An \<open>Error\<close> object, as far as the program reads it: \<open>error.name\<close> and \<open>error.message\<close>.\<close>

record js_error =
  error_name :: string
  error_message :: string

definition Error :: "string \<Rightarrow> js_error" where
  "Error msg = \<lparr>error_name = ''Error'', error_message = msg\<rparr>"

definition TypeError :: "string \<Rightarrow> js_error" where
  "TypeError msg = \<lparr>error_name = ''TypeError'', error_message = msg\<rparr>"

text \<open>What a \<open>throw\<close> statement can raise here: an error object, or \<open>undefined\<close>
  (\<open>throw lastError\<close> with \<open>lastError\<close> never assigned).\<close>

datatype thrown = Thrown js_error | ThrownUndefined

text \<open>\<open>String.prototype.includes\<close>.\<close>

fun starts_with :: "'a list \<Rightarrow> 'a list \<Rightarrow> bool" where
  "starts_with s [] = True"
| "starts_with [] (p # ps) = False"
| "starts_with (c # cs) (p # ps) = (c = p \<and> starts_with cs ps)"

fun js_includes :: "'a list \<Rightarrow> 'a list \<Rightarrow> bool" where
  "js_includes [] sub = (sub = [])"
| "js_includes (c # cs) sub = (starts_with (c # cs) sub \<or> js_includes cs sub)"

text \<open>The decimal rendering of a number inside a template literal.\<close>

definition digit_char :: "nat \<Rightarrow> char" where
  "digit_char d = char_of (48 + d)"

function string_of_nat :: "nat \<Rightarrow> string" where
  "string_of_nat n =
     (if n < 10 then [digit_char n] else string_of_nat (n div 10) @ [digit_char (n mod 10)])"
  by pat_completeness auto
termination
  by (relation "measure id") auto

declare string_of_nat.simps [simp del]

text \<open>\<open>WhiteSpace\<close> and \<open>LineTerminator\<close> code units: what \<open>\s\<close> matches and what
  \<open>trim()\<close> strips.\<close>

definition is_space :: "code_unit \<Rightarrow> bool" where
  "is_space c \<longleftrightarrow>
     c = 0x09 \<or> c = 0x0A \<or> c = 0x0B \<or> c = 0x0C \<or> c = 0x0D \<or> c = 0x20 \<or> c = 0xA0 \<or>
     c = 0x1680 \<or> (0x2000 \<le> c \<and> c \<le> 0x200A) \<or> c = 0x2028 \<or> c = 0x2029 \<or>
     c = 0x202F \<or> c = 0x205F \<or> c = 0x3000 \<or> c = 0xFEFF"

definition trim :: "jsstring \<Rightarrow> jsstring" where
  "trim t = rev (dropWhile is_space (rev (dropWhile is_space t)))"

text \<open>\<open>!text || text.trim().length === 0\<close>.\<close>

definition blank :: "jsstring \<Rightarrow> bool" where
  "blank t \<longleftrightarrow> t = [] \<or> length (trim t) = 0"

section \<open>constants.js\<close>

record retry_config =
  MAX_RETRIES :: int
  INITIAL_DELAY :: int
  MAX_DELAY :: int
  BACKOFF_MULTIPLIER :: int

definition RETRY_CONFIG :: retry_config where
  "RETRY_CONFIG = \<lparr>MAX_RETRIES = 3, INITIAL_DELAY = 1000, MAX_DELAY = 10000,
     BACKOFF_MULTIPLIER = 2\<rparr>"

record settings =
  sourceLanguage :: string
  targetLanguage :: string
  mockMode :: bool
  volume :: real
  bidirectionalMode :: bool
  autoDetectLanguage :: bool
  micDevice :: string

definition DEFAULT_SETTINGS :: settings where
  "DEFAULT_SETTINGS = \<lparr>sourceLanguage = ''ar'', targetLanguage = ''en'', mockMode = True,
     volume = 8 / 10, bidirectionalMode = False, autoDetectLanguage = True,
     micDevice = ''default''\<rparr>"

text \<open>\<open>MOCK_RESPONSES\<close>, with the code units the file holds for each entry.\<close>

definition MOCK_transcription :: "string \<Rightarrow> jsstring option" where
  "MOCK_transcription lang =
     (if lang = ''ar'' then Some
        [0xd9, 0x2026, 0xd8, 0xb1, 0xd8, 0xad, 0xd8, 0xa8, 0xd8, 0xa7, 0xd8, 0x152, 0x20,
         0xd9, 0x192, 0xd9, 0x160, 0xd9, 0x20, 0xd8, 0xad, 0xd8, 0xa7, 0xd9, 0x201e, 0xd9,
         0x192, 0xd8, 0x178]
      else if lang = ''fa'' then Some
        [0xd8, 0xb3, 0xd9, 0x201e, 0xd8, 0xa7, 0xd9, 0x2026, 0xd8, 0x152, 0x20, 0xda,
         0x2020, 0xd8, 0xb7, 0xd9, 0x2c6, 0xd8, 0xb1, 0x20, 0xd9, 0x2021, 0xd8, 0xb3, 0xd8,
         0xaa, 0xdb, 0x152, 0xd8, 0xaf, 0xd8, 0x178]
      else if lang = ''tr'' then Some
        [0x4d, 0x65, 0x72, 0x68, 0x61, 0x62, 0x61, 0x2c, 0x20, 0x6e, 0x61, 0x73, 0xc4,
         0xb1, 0x6c, 0x73, 0xc4, 0xb1, 0x6e, 0x3f]
      else if lang = ''he'' then Some
        [0xd7, 0xa9, 0xd7, 0x153, 0xd7, 0x2022, 0xd7, 0x2c, 0x20, 0xd7, 0xd7, 0x2122, 0xd7,
         0x161, 0x20, 0xd7, 0xd7, 0xaa, 0xd7, 0x201d, 0x3f]
      else if lang = ''ku'' then Some
        [0xd8, 0xb3, 0xda, 0xb5, 0xd8, 0xa7, 0xd9, 0x2c6, 0xd8, 0x152, 0x20, 0xda, 0x2020,
         0xdb, 0x2020, 0xd9, 0x2020, 0xdb, 0x152, 0xd8, 0xaa, 0xd8, 0x178]
      else None)"

definition MOCK_translation :: "string \<Rightarrow> jsstring option" where
  "MOCK_translation lang =
     (if lang \<in> {''ar'', ''fa'', ''tr'', ''he'', ''ku''}
      then Some (ascii ''Hello, how are you?'') else None)"

section \<open>The coordinator's state and its surroundings\<close>

text \<open>
  Everything the program does besides computing values is recorded in a trace: console
  output, the waits of the retrier, audio playback and the messages sent to the content
  script (\<open>TRANSLATION_RESULT\<close>, \<open>TRANSLATION_ERROR\<close>), which are the result sink's events.
\<close>

datatype console_level = LLog | LWarn | LError

record result_event =
  originalText :: jsstring
  translatedText :: jsstring
  event_sourceLanguage :: string
  event_targetLanguage :: string
  confidence :: real
  bidirectional :: bool

text \<open>Synthesized audio: the bytes the backend returned, or the beep \<open>getMockAudio\<close>
  generates for a text (its samples are not needed here).\<close>

datatype audio_buffer = BackendAudio "8 word list" | MockBeep jsstring

text \<open>
  The entries of the trace. \<open>Console\<close> is a \<open>console.log\<close>, \<open>console.warn\<close> or
  \<open>console.error\<close> with its label and the error printed with it; \<open>ErrorLogged\<close> is the
  record \<open>logError\<close> prints (context and error); \<open>RetryWarning\<close> is the retrier's warning
  with the values it interpolates (\<open>attempt + 1\<close>, \<open>maxRetries + 1\<close>, context, delay) and
  the error's message; \<open>Slept\<close> is a wait of the retrier or of \<open>restartTranslation\<close>;
  \<open>Stopped\<close> and \<open>Playing\<close> are \<open>currentAudio.stop()\<close> and \<open>source.start(0)\<close> with the gain
  set; the last two are the messages to the content script.
\<close>

datatype effect =
    Console console_level string "js_error option"
  | ErrorLogged string js_error
  | RetryWarning nat int string int string
  | Slept int
  | Stopped audio_buffer
  | Playing audio_buffer real
  | TRANSLATION_RESULT result_event
  | TRANSLATION_ERROR string

text \<open>The \<open>settings\<close> argument of an \<open>UPDATE_SETTINGS\<close> message: an object with some of the
  settings fields.\<close>

record settings_patch =
  set_sourceLanguage :: "string option"
  set_targetLanguage :: "string option"
  set_mockMode :: "bool option"
  set_volume :: "real option"
  set_bidirectionalMode :: "bool option"
  set_autoDetectLanguage :: "bool option"
  set_micDevice :: "string option"

text \<open>What the backend can answer to a \<open>fetch\<close>: the request is rejected (no connection), or
  a response arrives with its status, the \<open>error\<close> field of its JSON body if there is one,
  and the outcome of reading its payload.\<close>

datatype 'b response = Rejected js_error | Response nat "string option" "js_error + 'b"

record whisper_json =
  json_text :: jsstring
  json_language :: "string option"
  json_confidence :: "real option"

record translate_json =
  json_translatedText :: "jsstring option"
  json_translation_confidence :: "real option"
  json_sourceLanguage :: "string option"
  json_targetLanguage :: "string option"

text \<open>One call into the Web Audio API during \<open>playAudio\<close>: creating the context and
  decoding the buffer can each fail.\<close>

record web_audio =
  create_context :: "js_error option"
  decode_audio :: "js_error option"

record audio_capture =
  isCapturing :: bool
  audioContext :: bool
  deviceId :: string
  capture_volume :: real
  chunkCallbacks :: nat

record history_entry =
  role :: string
  content :: jsstring

record translation_api =
  conversationHistory :: "history_entry list"
  maxHistoryLength :: int

record tts_api =
  tts_audioContext :: bool
  currentAudio :: "audio_buffer option"

record error_handler =
  errorCounts :: "string \<Rightarrow> int option"
  maxRetries :: int
  initialDelay :: int
  maxDelay :: int
  backoffMultiplier :: int

text \<open>
  The \<open>BackgroundService\<close> object with the objects it owns, and the world it runs in. The
  world is scripted: \<open>inbox\<close> holds, for each coming suspension of the running call (a
  \<open>fetch\<close>, a timer, a browser call), the \<open>UPDATE_SETTINGS\<close> messages handled during it;
  \<open>net_*\<close> hold the backend's answers to the coming requests, \<open>speaker\<close> the behaviour of
  the coming playbacks, \<open>microphone\<close> the outcome of the coming \<open>getUserMedia\<close> calls. An
  exhausted script means: no message, no connection, playback works, the microphone opens.
\<close>

type_synonym audio = "8 word list"

record state =
  isActive :: bool
  currentSettings :: "settings option"
  audioCapture :: "audio_capture option"
  errorHandler :: error_handler
  translationAPI :: translation_api
  ttsAPI :: tts_api
  trace :: "effect list"
  inbox :: "settings_patch list list"
  net_transcribe :: "(audio \<times> string \<Rightarrow> whisper_json response) list"
  net_translate :: "(jsstring \<times> string \<times> string \<Rightarrow> translate_json response) list"
  net_synthesize :: "(jsstring \<times> string \<Rightarrow> audio response) list"
  speaker :: "web_audio list"
  microphone :: "js_error option list"
  stored_settings :: settings

definition emit :: "effect \<Rightarrow> state \<Rightarrow> state" where
  "emit x s = s\<lparr>trace := trace s @ [x]\<rparr>"

subsection \<open>\<open>updateSettings\<close> and suspension points\<close>

text \<open>\<open>{ ...this.currentSettings, ...settings }\<close> on a settings object.\<close>

definition spread :: "settings \<Rightarrow> settings_patch \<Rightarrow> settings" where
  "spread cs p =
     \<lparr>sourceLanguage = (case set_sourceLanguage p of Some v \<Rightarrow> v | None \<Rightarrow> sourceLanguage cs),
      targetLanguage = (case set_targetLanguage p of Some v \<Rightarrow> v | None \<Rightarrow> targetLanguage cs),
      mockMode = (case set_mockMode p of Some v \<Rightarrow> v | None \<Rightarrow> mockMode cs),
      volume = (case set_volume p of Some v \<Rightarrow> v | None \<Rightarrow> volume cs),
      bidirectionalMode =
        (case set_bidirectionalMode p of Some v \<Rightarrow> v | None \<Rightarrow> bidirectionalMode cs),
      autoDetectLanguage =
        (case set_autoDetectLanguage p of Some v \<Rightarrow> v | None \<Rightarrow> autoDetectLanguage cs),
      micDevice = (case set_micDevice p of Some v \<Rightarrow> v | None \<Rightarrow> micDevice cs)\<rparr>"

text \<open>
  \<open>updateSettings(settings)\<close>: the merged object replaces \<open>this.currentSettings\<close> and is
  handed to \<open>storage.set\<close>, which overwrites the stored fields it names. While
  \<open>this.currentSettings\<close> is still \<open>null\<close> the merge yields the message's own fields only:
  these reach the storage, and the service holds an object that lacks the others. The
  model has no such object and keeps \<open>None\<close> until a message carries every field; the
  fields of \<open>this.currentSettings\<close> are read by \<open>processAudioChunk\<close> (and by
  \<open>determineTranslationDirection\<close>, which it calls) behind its test of \<open>isActive\<close>, and
  by \<open>startTranslation\<close> after it has replaced the object by what the storage holds.
\<close>

definition complete :: "settings_patch \<Rightarrow> settings option" where
  "complete p =
     (case (set_sourceLanguage p, set_targetLanguage p, set_mockMode p, set_volume p,
            set_bidirectionalMode p, set_autoDetectLanguage p, set_micDevice p) of
        (Some a, Some b, Some c, Some d, Some e, Some f, Some g) \<Rightarrow>
          Some \<lparr>sourceLanguage = a, targetLanguage = b, mockMode = c, volume = d,
            bidirectionalMode = e, autoDetectLanguage = f, micDevice = g\<rparr>
      | _ \<Rightarrow> None)"

definition updateSettings :: "settings_patch \<Rightarrow> state \<Rightarrow> state" where
  "updateSettings p s =
     (case currentSettings s of
        Some cs \<Rightarrow> s\<lparr>currentSettings := Some (spread cs p), stored_settings := spread cs p\<rparr>
      | None \<Rightarrow>
          s\<lparr>currentSettings := complete p, stored_settings := spread (stored_settings s) p\<rparr>)"

text \<open>A suspension of the running call (an \<open>await\<close> on the network, a timer or the
  browser): the messages that arrive during it are handled, in order, before it resumes.\<close>

definition deliver_all :: "settings_patch list \<Rightarrow> state \<Rightarrow> state" where
  "deliver_all ps s = foldl (\<lambda>s' p. updateSettings p s') s ps"

definition yield :: "state \<Rightarrow> state" where
  "yield s =
     (case inbox s of
        [] \<Rightarrow> s
      | ps # rest \<Rightarrow> deliver_all ps (s\<lparr>inbox := rest\<rparr>))"

section \<open>modules/errorHandler.js\<close>

definition new_ErrorHandler :: error_handler where
  "new_ErrorHandler = \<lparr>errorCounts = Map.empty, maxRetries = MAX_RETRIES RETRY_CONFIG,
     initialDelay = INITIAL_DELAY RETRY_CONFIG, maxDelay = MAX_DELAY RETRY_CONFIG,
     backoffMultiplier = BACKOFF_MULTIPLIER RETRY_CONFIG\<rparr>"

text \<open>\<open>calculateDelay(attempt)\<close>; the loop counter it is called with is a natural number.\<close>

definition calculateDelay :: "error_handler \<Rightarrow> nat \<Rightarrow> int" where
  "calculateDelay eh attempt =
     (let delay = initialDelay eh * backoffMultiplier eh ^ attempt
      in min delay (maxDelay eh))"

text \<open>\<open>sleep(ms)\<close>, awaited.\<close>

definition sleep :: "int \<Rightarrow> state \<Rightarrow> state" where
  "sleep ms s = yield (emit (Slept ms) s)"

text \<open>
  \<open>retryWithBackoff(fn, context, maxRetries)\<close>. The operation \<open>fn\<close> runs in the state and
  either returns a value or throws an error. \<open>retry_wait\<close> is the part of the \<open>catch\<close> block
  that runs when attempts remain; \<open>retry_loop\<close> is the \<open>for\<close> loop, entered with
  \<open>attempt = 0\<close> and \<open>lastError\<close> undefined.
\<close>

definition retry_wait :: "string \<Rightarrow> int \<Rightarrow> nat \<Rightarrow> js_error \<Rightarrow> state \<Rightarrow> state" where
  "retry_wait context maxRetries' attempt error s =
     (let delay = calculateDelay (errorHandler s) attempt
      in sleep delay
           (emit (RetryWarning (attempt + 1) (maxRetries' + 1) context delay
                    (error_message error)) s))"

function retry_loop ::
  "(state \<Rightarrow> (js_error + 'a) \<times> state) \<Rightarrow> string \<Rightarrow> int \<Rightarrow> nat \<Rightarrow> thrown \<Rightarrow> state
     \<Rightarrow> (thrown + 'a) \<times> state" where
  "retry_loop fn context maxRetries' attempt lastError s =
     (if int attempt \<le> maxRetries' then
        (case fn s of
           (Inr v, s1) \<Rightarrow> (Inr v, s1)
         | (Inl error, s1) \<Rightarrow>
             if int attempt = maxRetries' then
               (Inl (Thrown error),
                emit (Console LError (''Max retries exceeded for '' @ context @ '':'')
                        (Some error)) s1)
             else
               retry_loop fn context maxRetries' (attempt + 1) (Thrown error)
                 (retry_wait context maxRetries' attempt error s1))
      else (Inl lastError, s))"
  by pat_completeness auto
termination
  by (relation "measure (\<lambda>(fn, context, m, attempt, lastError, s). nat (m + 1 - int attempt))")
    auto

declare retry_loop.simps [simp del]

definition retryWithBackoff ::
  "(state \<Rightarrow> (js_error + 'a) \<times> state) \<Rightarrow> string \<Rightarrow> int \<Rightarrow> state \<Rightarrow> (thrown + 'a) \<times> state"
  where
  "retryWithBackoff fn context maxRetries' s =
     retry_loop fn context maxRetries' 0 ThrownUndefined s"

text \<open>The call with \<open>maxRetries\<close> left to its default, \<open>this.maxRetries\<close>.\<close>

definition retryWithBackoff_default ::
  "(state \<Rightarrow> (js_error + 'a) \<times> state) \<Rightarrow> string \<Rightarrow> state \<Rightarrow> (thrown + 'a) \<times> state" where
  "retryWithBackoff_default fn context s =
     retryWithBackoff fn context (maxRetries (errorHandler s)) s"

text \<open>\<open>trackError\<close>, \<open>resetErrorCount\<close>, \<open>isFeatureDisabled\<close>: the counters are keyed by the
  string \<open>`${errorType}-${context}`\<close>.\<close>

definition error_key :: "string \<Rightarrow> string \<Rightarrow> string" where
  "error_key errorType context = errorType @ ''-'' @ context"

definition get_count :: "error_handler \<Rightarrow> string \<Rightarrow> int" where
  "get_count eh key = (case errorCounts eh key of Some c \<Rightarrow> c | None \<Rightarrow> 0)"

definition trackError :: "string \<Rightarrow> string \<Rightarrow> state \<Rightarrow> bool \<times> state" where
  "trackError errorType context s =
     (let key = error_key errorType context;
          count = get_count (errorHandler s) key;
          s1 = s\<lparr>errorHandler :=
                 (errorHandler s)\<lparr>errorCounts := (errorCounts (errorHandler s))(key \<mapsto> count + 1)\<rparr>\<rparr>
      in if count > 5
         then (False,
               emit (Console LWarn (''Too many errors for '' @ key @ '', temporarily disabling'')
                       None) s1)
         else (True, s1))"

definition resetErrorCount :: "string \<Rightarrow> string \<Rightarrow> state \<Rightarrow> state" where
  "resetErrorCount errorType context s =
     s\<lparr>errorHandler :=
         (errorHandler s)\<lparr>errorCounts :=
            (errorCounts (errorHandler s))(error_key errorType context := None)\<rparr>\<rparr>"

definition isFeatureDisabled :: "error_handler \<Rightarrow> string \<Rightarrow> string \<Rightarrow> bool" where
  "isFeatureDisabled eh errorType context \<longleftrightarrow> get_count eh (error_key errorType context) > 5"

record error_info =
  info_type :: string
  info_message :: string
  info_action :: string

definition classify_api_error :: "js_error \<Rightarrow> error_info" where
  "classify_api_error error =
     (if js_includes (error_message error) ''401'' \<or>
         js_includes (error_message error) ''Unauthorized''
      then \<lparr>info_type = ''AUTH_ERROR'', info_message = ''API key is invalid or expired'',
             info_action = ''check_api_key''\<rparr>
      else if js_includes (error_message error) ''429'' \<or>
              js_includes (error_message error) ''rate limit''
      then \<lparr>info_type = ''RATE_LIMIT'', info_message = ''API rate limit exceeded'',
             info_action = ''wait_and_retry''\<rparr>
      else if js_includes (error_message error) ''network'' \<or>
              js_includes (error_message error) ''fetch''
      then \<lparr>info_type = ''NETWORK_ERROR'', info_message = ''Network connection failed'',
             info_action = ''check_connection''\<rparr>
      else \<lparr>info_type = ''UNKNOWN_ERROR'', info_message = error_message error,
             info_action = ''retry''\<rparr>)"

definition handleApiError :: "js_error \<Rightarrow> string \<Rightarrow> state \<Rightarrow> error_info \<times> state" where
  "handleApiError error apiName s =
     (classify_api_error error, emit (Console LError (apiName @ '' API error:'') (Some error)) s)"

definition classify_audio_error :: "js_error \<Rightarrow> error_info" where
  "classify_audio_error error =
     (if error_name error = ''NotAllowedError''
      then \<lparr>info_type = ''PERMISSION_ERROR'', info_message = ''Microphone permission denied'',
             info_action = ''request_permission''\<rparr>
      else if error_name error = ''NotFoundError''
      then \<lparr>info_type = ''DEVICE_ERROR'', info_message = ''Microphone device not found'',
             info_action = ''check_device''\<rparr>
      else if error_name error = ''NotReadableError''
      then \<lparr>info_type = ''DEVICE_ERROR'',
             info_message = ''Microphone is being used by another application'',
             info_action = ''close_other_apps''\<rparr>
      else \<lparr>info_type = ''AUDIO_ERROR'', info_message = error_message error,
             info_action = ''retry''\<rparr>)"

definition handleAudioError :: "js_error \<Rightarrow> string \<Rightarrow> state \<Rightarrow> error_info \<times> state" where
  "handleAudioError error context s =
     (classify_audio_error error,
      emit (Console LError (''Audio error in '' @ context @ '':'') (Some error)) s)"

definition friendly_messages :: "string \<Rightarrow> string option" where
  "friendly_messages t =
     (if t = ''AUTH_ERROR'' then Some ''Please check your API keys in the extension settings''
      else if t = ''RATE_LIMIT''
        then Some ''API rate limit exceeded. Please wait a moment and try again''
      else if t = ''NETWORK_ERROR''
        then Some ''Network connection failed. Please check your internet connection''
      else if t = ''PERMISSION_ERROR''
        then Some ''Microphone permission denied. Please allow microphone access''
      else if t = ''DEVICE_ERROR''
        then Some ''Microphone device not found. Please check your audio settings''
      else if t = ''STORAGE_ERROR'' then Some ''Failed to save settings. Please try again''
      else if t = ''UNKNOWN_ERROR''
        then Some ''An unexpected error occurred. Please try again''
      else None)"

definition getUserFriendlyMessage :: "error_info \<Rightarrow> string" where
  "getUserFriendlyMessage errorInfo =
     (case friendly_messages (info_type errorInfo) of
        Some m \<Rightarrow> m
      | None \<Rightarrow> ''An unexpected error occurred. Please try again'')"

definition logError :: "js_error \<Rightarrow> string \<Rightarrow> state \<Rightarrow> state" where
  "logError error context s = emit (ErrorLogged context error) s"

definition isRecoverableError :: "error_info \<Rightarrow> bool" where
  "isRecoverableError error \<longleftrightarrow> info_type error \<in> {''RATE_LIMIT'', ''NETWORK_ERROR'', ''AUDIO_ERROR''}"

record retry_strategy =
  strategy_maxRetries :: int
  strategy_delay :: int

definition getRetryStrategy :: "string \<Rightarrow> retry_strategy" where
  "getRetryStrategy errorType =
     (if errorType = ''AUTH_ERROR'' then \<lparr>strategy_maxRetries = 0, strategy_delay = 0\<rparr>
      else if errorType = ''RATE_LIMIT'' then \<lparr>strategy_maxRetries = 3, strategy_delay = 5000\<rparr>
      else if errorType = ''NETWORK_ERROR'' then \<lparr>strategy_maxRetries = 5, strategy_delay = 1000\<rparr>
      else if errorType = ''AUDIO_ERROR'' then \<lparr>strategy_maxRetries = 2, strategy_delay = 2000\<rparr>
      else if errorType = ''STORAGE_ERROR'' then \<lparr>strategy_maxRetries = 3, strategy_delay = 1000\<rparr>
      else \<lparr>strategy_maxRetries = 2, strategy_delay = 1000\<rparr>)"

section \<open>modules/whisperAPI.js\<close>

record transcription =
  transcription_text :: jsstring
  language :: string
  transcription_confidence :: real

text \<open>\<open>response.ok\<close>.\<close>

definition ok :: "nat \<Rightarrow> bool" where
  "ok status \<longleftrightarrow> 200 \<le> status \<and> status \<le> 299"

text \<open>\<open>`Backend API error: ${response.status} - ${errorData.error || 'Unknown error'}`\<close>.\<close>

definition backend_error :: "nat \<Rightarrow> string option \<Rightarrow> js_error" where
  "backend_error status err =
     Error (''Backend API error: '' @ string_of_nat status @ '' - '' @
            (case err of Some m \<Rightarrow> (if m = [] then ''Unknown error'' else m)
                       | None \<Rightarrow> ''Unknown error''))"

text \<open>One request to the backend: the next scripted answer, awaited. Reading the body is a
  second suspension right after the first, with no step of the caller between the two; the
  messages of both are those of one \<open>inbox\<close> entry. The result is what the \<open>try\<close> block
  has at hand afterwards: the payload, or the error thrown inside it.\<close>

definition no_connection :: js_error where
  "no_connection = TypeError ''Failed to fetch''"

definition settle :: "'b response \<Rightarrow> js_error + 'b" where
  "settle r =
     (case r of
        Rejected e \<Rightarrow> Inl e
      | Response status err payload \<Rightarrow>
          if \<not> ok status then Inl (backend_error status err) else payload)"

definition fetch_transcribe :: "audio \<Rightarrow> string \<Rightarrow> state \<Rightarrow> (js_error + whisper_json) \<times> state" where
  "fetch_transcribe audioBlob lang s =
     (case net_transcribe s of
        [] \<Rightarrow> (Inl no_connection, yield s)
      | r # rest \<Rightarrow> (settle (r (audioBlob, lang)), yield (s\<lparr>net_transcribe := rest\<rparr>)))"

definition mock_transcription_text :: "string \<Rightarrow> jsstring" where
  "mock_transcription_text lang =
     (case MOCK_transcription lang of
        Some t \<Rightarrow> t
      | None \<Rightarrow>
          (case MOCK_transcription ''ar'' of
             Some t \<Rightarrow> t
           | None \<Rightarrow> [0x645, 0x631, 0x62d, 0x628, 0x627, 0x60c, 0x20, 0x643, 0x64a, 0x641,
                      0x20, 0x62d, 0x627, 0x644, 0x643, 0x61f]))"

definition getMockTranscription :: "string \<Rightarrow> state \<Rightarrow> transcription \<times> state" where
  "getMockTranscription lang s =
     (\<lparr>transcription_text = mock_transcription_text lang, language = lang,
        transcription_confidence = 95 / 100\<rparr>, yield s)"

definition transcribe ::
  "audio \<Rightarrow> string \<Rightarrow> bool \<Rightarrow> state \<Rightarrow> (js_error + transcription) \<times> state" where
  "transcribe audioBlob lang mock s =
     (if mock then (case getMockTranscription lang s of (t, s1) \<Rightarrow> (Inr t, s1))
      else
        (case fetch_transcribe audioBlob lang s of
           (Inl error, s1) \<Rightarrow>
             (Inl (Error (''Transcription failed: '' @ error_message error)),
              emit (Console LError ''Transcription error:'' (Some error)) s1)
         | (Inr result, s1) \<Rightarrow>
             (Inr \<lparr>transcription_text = json_text result,
                   language = (case json_language result of
                                 Some l \<Rightarrow> (if l = [] then lang else l) | None \<Rightarrow> lang),
                   transcription_confidence =
                     (case json_confidence result of
                        Some c \<Rightarrow> (if c = 0 then 1 else c) | None \<Rightarrow> 1)\<rparr>, s1)))"

text \<open>\<open>detectLanguage(text)\<close>: the four character classes of its regular expressions, and
  the chain of tests.\<close>

definition arabic_script :: "code_unit \<Rightarrow> bool" where
  "arabic_script c \<longleftrightarrow>
     (0x0600 \<le> c \<and> c \<le> 0x06FF) \<or> (0x0750 \<le> c \<and> c \<le> 0x077F) \<or>
     (0x08A0 \<le> c \<and> c \<le> 0x08FF) \<or> (0xFB50 \<le> c \<and> c \<le> 0xFDFF) \<or>
     (0xFE70 \<le> c \<and> c \<le> 0xFEFF)"

definition persian_specific :: "code_unit \<Rightarrow> bool" where
  "persian_specific c \<longleftrightarrow>
     c = 0x06A9 \<or> c = 0x06AF \<or> c = 0x0686 \<or> c = 0x0698 \<or> c = 0x06CC \<or> c = 0x06A0 \<or>
     c = 0x06BE \<or> c = 0x06C1 \<or> c = 0x06D2 \<or> (0x06D4 \<le> c \<and> c \<le> 0x06F9)"

definition hebrew_specific :: "code_unit \<Rightarrow> bool" where
  "hebrew_specific c \<longleftrightarrow> (0x0590 \<le> c \<and> c \<le> 0x05FF) \<or> c = 0x200F \<or> c = 0x200E"

definition kurdish_specific :: "code_unit \<Rightarrow> bool" where
  "kurdish_specific c \<longleftrightarrow> 0x06B5 \<le> c \<and> c \<le> 0x06EF"

definition turkish_specific :: "code_unit \<Rightarrow> bool" where
  "turkish_specific c \<longleftrightarrow>
     c = 0xE7 \<or> c = 0x11F \<or> c = 0x131 \<or> c = 0xF6 \<or> c = 0x15F \<or> c = 0xFC \<or> c = 0xC7 \<or>
     c = 0x11E \<or> c = 0x49 \<or> c = 0x130 \<or> c = 0xD6 \<or> c = 0x15E \<or> c = 0xDC"

definition detectLanguage :: "jsstring \<Rightarrow> string" where
  "detectLanguage t =
     (if t = [] then ''en''
      else if list_ex arabic_script t then
        (if list_ex persian_specific t then ''fa''
         else if list_ex hebrew_specific t then ''he''
         else if list_ex kurdish_specific t then ''ku''
         else ''ar'')
      else if list_ex turkish_specific t then ''tr''
      else ''en'')"

section \<open>modules/translationAPI.js\<close>

definition new_TranslationAPI :: translation_api where
  "new_TranslationAPI = \<lparr>conversationHistory = [], maxHistoryLength = 10\<rparr>"

text \<open>\<open>Array.prototype.slice(start)\<close> with an integer \<open>start\<close>: a negative one counts from
  the end.\<close>

definition slice :: "int \<Rightarrow> 'a list \<Rightarrow> 'a list" where
  "slice start xs =
     (let len = int (length xs);
          k = (if start < 0 then max (len + start) 0 else min start len)
      in drop (nat k) xs)"

definition addToHistory ::
  "jsstring \<Rightarrow> jsstring \<Rightarrow> string \<Rightarrow> string \<Rightarrow> translation_api \<Rightarrow> translation_api" where
  "addToHistory originalText' translatedText' sourceLanguage' targetLanguage' api =
     (let h = conversationHistory api @
                [\<lparr>role = ''user'',
                  content = ascii (''Original ('' @ sourceLanguage' @ ''): '') @ originalText'\<rparr>,
                 \<lparr>role = ''assistant'',
                  content = ascii (''Translation ('' @ targetLanguage' @ ''): '') @ translatedText'\<rparr>]
      in if int (length h) > maxHistoryLength api
         then api\<lparr>conversationHistory := slice (- maxHistoryLength api) h\<rparr>
         else api\<lparr>conversationHistory := h\<rparr>)"

definition clearHistory :: "translation_api \<Rightarrow> translation_api" where
  "clearHistory api = api\<lparr>conversationHistory := []\<rparr>"

definition setMaxHistoryLength :: "int \<Rightarrow> translation_api \<Rightarrow> translation_api" where
  "setMaxHistoryLength len api = api\<lparr>maxHistoryLength := max 1 (min 50 len)\<rparr>"

text \<open>\<open>calculateConfidence\<close>, over the reals (rounding is not modelled). \<open>None\<close> is \<open>NaN\<close>,
  the result for two empty texts. \<open>toLowerCase\<close> is needed only to look for two ASCII
  words; no other code unit lowers to a letter that completes one of them.\<close>

definition toLowerCase :: "jsstring \<Rightarrow> jsstring" where
  "toLowerCase t = map (\<lambda>c. if 0x41 \<le> c \<and> c \<le> 0x5A then c + 0x20 else c) t"

definition calculateConfidence :: "jsstring \<Rightarrow> jsstring \<Rightarrow> real option" where
  "calculateConfidence originalText' translatedText' =
     (let originalLength = length originalText';
          translatedLength = length translatedText'
      in if max originalLength translatedLength = 0 then None
         else
           let lengthRatio =
                 real (min originalLength translatedLength) /
                 real (max originalLength translatedLength);
               c = (8 / 10) * lengthRatio;
               c' = (if js_includes (toLowerCase translatedText') (ascii ''translation'') \<or>
                        js_includes (toLowerCase translatedText') (ascii ''error'')
                     then c * (5 / 10) else c)
           in Some (min 1 (max (1 / 10) c')))"

record translation =
  translation_text :: jsstring
  translation_confidence :: "real option"
  translation_sourceLanguage :: "string option"
  translation_targetLanguage :: "string option"

definition fetch_translate ::
  "jsstring \<Rightarrow> string \<Rightarrow> string \<Rightarrow> state \<Rightarrow> (js_error + translate_json) \<times> state" where
  "fetch_translate t src tgt s =
     (case net_translate s of
        [] \<Rightarrow> (Inl no_connection, yield s)
      | r # rest \<Rightarrow> (settle (r (t, src, tgt)), yield (s\<lparr>net_translate := rest\<rparr>)))"

definition getMockTranslation ::
  "jsstring \<Rightarrow> string \<Rightarrow> string \<Rightarrow> state \<Rightarrow> translation \<times> state" where
  "getMockTranslation t src tgt s =
     (\<lparr>translation_text =
         (case MOCK_translation src of
            Some m \<Rightarrow> m
          | None \<Rightarrow> (case MOCK_translation ''ar'' of
                       Some m \<Rightarrow> m | None \<Rightarrow> ascii ''Hello, how are you?'')),
       translation_confidence = Some (9 / 10),
       translation_sourceLanguage = Some src,
       translation_targetLanguage = Some tgt\<rparr>, yield s)"

definition or_else :: "string option \<Rightarrow> string \<Rightarrow> string" where
  "or_else v d = (case v of Some l \<Rightarrow> (if l = [] then d else l) | None \<Rightarrow> d)"

definition translate ::
  "jsstring \<Rightarrow> string \<Rightarrow> string \<Rightarrow> bool \<Rightarrow> state \<Rightarrow> (js_error + translation) \<times> state" where
  "translate t src tgt mock s =
     (if mock then (case getMockTranslation t src tgt s of (r, s1) \<Rightarrow> (Inr r, s1))
      else if blank t then
        (Inr \<lparr>translation_text = [], translation_confidence = Some 0,
              translation_sourceLanguage = None, translation_targetLanguage = None\<rparr>, s)
      else
        (case fetch_translate t src tgt s of
           (Inl error, s1) \<Rightarrow>
             (Inl (Error (''Translation failed: '' @ error_message error)),
              emit (Console LError ''Translation error:'' (Some error)) s1)
         | (Inr result, s1) \<Rightarrow>
             (let translatedText' =
                    (case json_translatedText result of Some x \<Rightarrow> x | None \<Rightarrow> []);
                  s2 = s1\<lparr>translationAPI :=
                          addToHistory t translatedText' src tgt (translationAPI s1)\<rparr>
              in (Inr \<lparr>translation_text = translatedText',
                        translation_confidence =
                          (case json_translation_confidence result of
                             Some c \<Rightarrow> (if c = 0 then calculateConfidence t translatedText'
                                        else Some c)
                           | None \<Rightarrow> calculateConfidence t translatedText'),
                        translation_sourceLanguage = Some (or_else (json_sourceLanguage result) src),
                        translation_targetLanguage = Some (or_else (json_targetLanguage result) tgt)\<rparr>,
                  s2))))"

text \<open>\<open>needsTranslation(text, targetLanguage)\<close>; \<open>english_char\<close> is the character class of
  \<open>englishPattern\<close>, which must match the whole, non-empty text.\<close>

definition english_char :: "code_unit \<Rightarrow> bool" where
  "english_char c \<longleftrightarrow>
     (0x61 \<le> c \<and> c \<le> 0x7A) \<or> (0x41 \<le> c \<and> c \<le> 0x5A) \<or> is_space c \<or>
     c = 0x2E \<or> c = 0x2C \<or> c = 0x21 \<or> c = 0x3F \<or> c = 0x3B \<or> c = 0x3A \<or> c = 0x27 \<or>
     c = 0x22 \<or> c = 0x28 \<or> c = 0x29 \<or> c = 0x2D"

definition englishPattern :: "jsstring \<Rightarrow> bool" where
  "englishPattern t \<longleftrightarrow> t \<noteq> [] \<and> list_all english_char t"

definition needsTranslation :: "jsstring \<Rightarrow> string \<Rightarrow> bool" where
  "needsTranslation t targetLanguage' =
     (if blank t then False
      else if targetLanguage' = ''en'' then \<not> englishPattern t
      else True)"

section \<open>modules/elevenLabsTTS.js\<close>

definition fetch_synthesize :: "jsstring \<Rightarrow> string \<Rightarrow> state \<Rightarrow> (js_error + audio) \<times> state" where
  "fetch_synthesize t lang s =
     (case net_synthesize s of
        [] \<Rightarrow> (Inl no_connection, yield s)
      | r # rest \<Rightarrow> (settle (r (t, lang)), yield (s\<lparr>net_synthesize := rest\<rparr>)))"

definition getMockAudio :: "jsstring \<Rightarrow> string \<Rightarrow> state \<Rightarrow> audio_buffer \<times> state" where
  "getMockAudio t lang s = (MockBeep t, yield s)"

definition synthesize ::
  "jsstring \<Rightarrow> string \<Rightarrow> bool \<Rightarrow> state \<Rightarrow> (js_error + audio_buffer) \<times> state" where
  "synthesize t lang mock s =
     (if mock then (case getMockAudio t lang s of (b, s1) \<Rightarrow> (Inr b, s1))
      else
        (case (if blank t then (Inl (Error ''No text provided for synthesis''), s)
               else fetch_synthesize t lang s) of
           (Inl error, s1) \<Rightarrow>
             (Inl (Error (''TTS synthesis failed: '' @ error_message error)),
              emit (Console LError ''TTS synthesis error:'' (Some error)) s1)
         | (Inr bytes, s1) \<Rightarrow> (Inr (BackendAudio bytes), s1)))"

text \<open>\<open>playAudio(audioBuffer, volume)\<close>: stop the clip still playing, create the audio
  context if there is none, decode (awaited), then start the source at the clamped gain.
  Whatever fails inside is logged and rethrown as \<open>Audio playback failed: \<dots>\<close>.\<close>

definition playback_failed :: "js_error \<Rightarrow> state \<Rightarrow> (js_error + bool) \<times> state" where
  "playback_failed error s =
     (Inl (Error (''Audio playback failed: '' @ error_message error)),
      emit (Console LError ''Error playing audio:'' (Some error)) s)"

definition playAudio :: "audio_buffer \<Rightarrow> real \<Rightarrow> state \<Rightarrow> (js_error + bool) \<times> state" where
  "playAudio audioBuffer vol s =
     (let call = (case speaker s of
                    [] \<Rightarrow> \<lparr>create_context = None, decode_audio = None\<rparr> | c # _ \<Rightarrow> c);
          s0 = s\<lparr>speaker := (case speaker s of [] \<Rightarrow> [] | _ # rest \<Rightarrow> rest)\<rparr>;
          s1 = (case currentAudio (ttsAPI s0) of
                  Some playing \<Rightarrow> emit (Stopped playing) s0 | None \<Rightarrow> s0)
      in case (if tts_audioContext (ttsAPI s1) then None else create_context call) of
           Some error \<Rightarrow> playback_failed error s1
         | None \<Rightarrow>
             (let s2 = yield (s1\<lparr>ttsAPI := (ttsAPI s1)\<lparr>tts_audioContext := True\<rparr>\<rparr>)
              in case decode_audio call of
                   Some error \<Rightarrow> playback_failed error s2
                 | None \<Rightarrow>
                     (Inr True,
                      emit (Playing audioBuffer (max 0 (min 1 vol)))
                        (s2\<lparr>ttsAPI := (ttsAPI s2)\<lparr>currentAudio := Some audioBuffer\<rparr>\<rparr>))))"

section \<open>modules/audioCapture.js\<close>

definition new_AudioCapture :: audio_capture where
  "new_AudioCapture = \<lparr>isCapturing = False, audioContext = False, deviceId = ''default'',
     capture_volume = 1, chunkCallbacks = 0\<rparr>"

definition with_capture :: "(audio_capture \<Rightarrow> audio_capture) \<Rightarrow> state \<Rightarrow> state" where
  "with_capture f s = s\<lparr>audioCapture := map_option f (audioCapture s)\<rparr>"

text \<open>\<open>initialize(deviceId, volume)\<close> on the coordinator's capture object: \<open>getUserMedia\<close>
  is awaited and may be refused.\<close>

definition initialize :: "string \<Rightarrow> real \<Rightarrow> state \<Rightarrow> js_error option \<times> state" where
  "initialize dev vol s =
     (let s1 = with_capture (\<lambda>ac. ac\<lparr>deviceId := dev, capture_volume := vol\<rparr>) s;
          outcome = (case microphone s1 of [] \<Rightarrow> None | r # _ \<Rightarrow> r);
          s2 = yield (s1\<lparr>microphone := (case microphone s1 of [] \<Rightarrow> [] | _ # rest \<Rightarrow> rest)\<rparr>)
      in case outcome of
           Some error \<Rightarrow>
             (Some (Error (''Failed to initialize audio capture: '' @ error_message error)),
              emit (Console LError ''Error initializing audio capture:'' (Some error)) s2)
         | None \<Rightarrow> (None, with_capture (\<lambda>ac. ac\<lparr>audioContext := True\<rparr>) s2))"

definition getStatus :: "audio_capture \<Rightarrow> bool \<times> bool" where
  "getStatus ac = (isCapturing ac, audioContext ac)"

definition stopCapture :: "state \<Rightarrow> state" where
  "stopCapture s = with_capture (\<lambda>ac. ac\<lparr>isCapturing := False\<rparr>) s"

definition cleanup :: "state \<Rightarrow> state" where
  "cleanup s =
     (let s1 = with_capture (\<lambda>ac. ac\<lparr>isCapturing := False\<rparr>) s;
          s2 = (case audioCapture s1 of
                  Some ac \<Rightarrow> (if audioContext ac then yield s1 else s1) | None \<Rightarrow> s1)
      in with_capture (\<lambda>ac. ac\<lparr>audioContext := False, chunkCallbacks := 0\<rparr>) s2)"

definition startCapture :: "state \<Rightarrow> js_error option \<times> state" where
  "startCapture s =
     (case audioCapture s of
        None \<Rightarrow> (Some (TypeError ''Cannot read properties of null''), s)
      | Some ac \<Rightarrow>
          if \<not> audioContext ac then (Some (Error ''Audio capture not initialized''), s)
          else (None, with_capture (\<lambda>ac. ac\<lparr>isCapturing := True\<rparr>) s))"

definition onAudioChunk :: "state \<Rightarrow> state" where
  "onAudioChunk s = with_capture (\<lambda>ac. ac\<lparr>chunkCallbacks := chunkCallbacks ac + 1\<rparr>) s"

section \<open>background.js\<close>

definition new_BackgroundService :: state where
  "new_BackgroundService =
     \<lparr>isActive = False, currentSettings = None, audioCapture = None,
      errorHandler = new_ErrorHandler, translationAPI = new_TranslationAPI,
      ttsAPI = \<lparr>tts_audioContext = False, currentAudio = None\<rparr>,
      trace = [], inbox = [], net_transcribe = [], net_translate = [], net_synthesize = [],
      speaker = [], microphone = [], stored_settings = DEFAULT_SETTINGS\<rparr>"

text \<open>\<open>sendResultsToContentScript\<close> and \<open>sendErrorToContentScript\<close>: the open Meet tabs are
  queried (awaited) and the message goes to each of them; the trace records the message.\<close>

definition sendResultsToContentScript :: "result_event \<Rightarrow> state \<Rightarrow> state" where
  "sendResultsToContentScript results s = emit (TRANSLATION_RESULT results) (yield s)"

definition sendErrorToContentScript :: "string \<Rightarrow> state \<Rightarrow> state" where
  "sendErrorToContentScript errorMessage s = emit (TRANSLATION_ERROR errorMessage) (yield s)"

subsection \<open>\<open>startTranslation\<close>, \<open>stopTranslation\<close>, \<open>restartTranslation\<close>\<close>

definition start_failed :: "js_error \<Rightarrow> state \<Rightarrow> js_error option \<times> state" where
  "start_failed error s =
     (Some error,
      emit (Console LError ''Error starting translation:'' (Some error))
        (logError error ''startTranslation'' s))"

definition startTranslation :: "state \<Rightarrow> js_error option \<times> state" where
  "startTranslation s =
     (if isActive s then (None, emit (Console LLog ''Translation already active'' None) s)
      else
        (let s1 = yield s;
             cs = stored_settings s1;
             s2 = s1\<lparr>currentSettings := Some cs, audioCapture := Some new_AudioCapture\<rparr>
         in case initialize (if micDevice cs = [] then ''default'' else micDevice cs)
                   (if volume cs = 0 then 8 / 10 else volume cs) s2 of
              (Some audioError, s3) \<Rightarrow>
                (case handleAudioError audioError ''startTranslation'' s3 of
                   (errorInfo, s4) \<Rightarrow> start_failed (Error (getUserFriendlyMessage errorInfo)) s4)
            | (None, s3) \<Rightarrow>
                (case startCapture (onAudioChunk s3) of
                   (Some error, s4) \<Rightarrow> start_failed error s4
                 | (None, s4) \<Rightarrow>
                     (None,
                      emit (Console LLog ''Translation started successfully'' None)
                        (s4\<lparr>isActive := True\<rparr>)))))"

definition stopTranslation :: "state \<Rightarrow> state" where
  "stopTranslation s =
     (if \<not> isActive s then emit (Console LLog ''Translation not active'' None) s
      else
        (let s1 = (case audioCapture s of
                     None \<Rightarrow> s
                   | Some ac \<Rightarrow> (cleanup (stopCapture s))\<lparr>audioCapture := None\<rparr>)
         in emit (Console LLog ''Translation stopped'' None) (s1\<lparr>isActive := False\<rparr>)))"

definition restartTranslation :: "state \<Rightarrow> state" where
  "restartTranslation s =
     (case startTranslation (sleep 1000 (stopTranslation s)) of
        (None, s1) \<Rightarrow> s1
      | (Some error, s1) \<Rightarrow> emit (Console LError ''Error restarting translation:'' (Some error)) s1)"

subsection \<open>\<open>determineTranslationDirection\<close>\<close>

record translation_direction =
  source :: string
  target :: string

text \<open>The first argument is \<open>this.currentSettings\<close> at the time of the call.\<close>

definition determineTranslationDirection ::
  "settings \<Rightarrow> string \<Rightarrow> jsstring \<Rightarrow> translation_direction" where
  "determineTranslationDirection cs detectedLanguage t =
     (let isMiddleEasternLanguage = detectedLanguage \<in> set [''ar'', ''fa'', ''tr'', ''he'', ''ku''];
          isEnglish = (detectedLanguage = ''en'')
      in if isMiddleEasternLanguage then \<lparr>source = detectedLanguage, target = ''en''\<rparr>
         else if isEnglish then \<lparr>source = ''en'', target = sourceLanguage cs\<rparr>
         else \<lparr>source = sourceLanguage cs, target = targetLanguage cs\<rparr>)"

subsection \<open>\<open>processAudioChunk\<close>\<close>

text \<open>
  The \<open>try\<close> block of \<open>processAudioChunk\<close>, in parts: \<open>deliver\<close> is steps 5 and 6 (play,
  then send the result), \<open>translate_and_deliver\<close> is the body of the
  \<open>if (needsTranslation)\<close>, \<open>resolve_languages\<close> is step 2, \<open>translate_segment\<close> is
  everything after the transcription has been found non-empty, \<open>process_segment\<close> is the
  block from its start. Each read of \<open>this.currentSettings\<close> happens where the source has
  it: the closures handed to the retrier read it at each attempt. Reading a field of
  \<open>null\<close> throws.
\<close>

definition null_settings :: js_error where
  "null_settings = TypeError ''Cannot read properties of null''"

definition deliver ::
  "transcription \<Rightarrow> translation \<Rightarrow> string \<Rightarrow> string \<Rightarrow> audio_buffer \<Rightarrow> state
     \<Rightarrow> (thrown + unit) \<times> state" where
  "deliver tr translated sourceLanguage' targetLanguage' audioBuffer s =
     (case currentSettings s of
        None \<Rightarrow> (Inl (Thrown null_settings), s)
      | Some cs \<Rightarrow>
          (case playAudio audioBuffer (volume cs) s of
             (Inl error, s1) \<Rightarrow> (Inl (Thrown error), s1)
           | (Inr _, s1) \<Rightarrow>
               (case currentSettings s1 of
                  None \<Rightarrow> (Inl (Thrown null_settings), s1)
                | Some cs1 \<Rightarrow>
                    (Inr (),
                     sendResultsToContentScript
                       \<lparr>originalText = transcription_text tr,
                        translatedText = translation_text translated,
                        event_sourceLanguage = sourceLanguage',
                        event_targetLanguage = targetLanguage',
                        confidence = transcription_confidence tr,
                        bidirectional = bidirectionalMode cs1\<rparr> s1))))"

definition translate_and_deliver ::
  "transcription \<Rightarrow> translation_direction \<Rightarrow> state \<Rightarrow> (thrown + unit) \<times> state" where
  "translate_and_deliver tr direction s =
     (case retryWithBackoff_default
             (\<lambda>s'. case currentSettings s' of
                      None \<Rightarrow> (Inl null_settings, s')
                    | Some cs' \<Rightarrow>
                        translate (transcription_text tr) (source direction) (target direction)
                          (mockMode cs') s')
             ''translation'' s of
        (Inl t, s1) \<Rightarrow> (Inl t, s1)
      | (Inr translated, s1) \<Rightarrow>
          (case retryWithBackoff_default
                  (\<lambda>s'. case currentSettings s' of
                           None \<Rightarrow> (Inl null_settings, s')
                         | Some cs' \<Rightarrow>
                             synthesize (translation_text translated) (target direction)
                               (mockMode cs') s')
                  ''tts_synthesis'' s1 of
             (Inl t, s2) \<Rightarrow> (Inl t, s2)
           | (Inr audioBuffer, s2) \<Rightarrow>
               deliver tr translated (source direction) (target direction) audioBuffer s2))"

definition resolve_languages :: "settings \<Rightarrow> transcription \<Rightarrow> translation_direction" where
  "resolve_languages cs tr =
     (let detected = (if autoDetectLanguage cs then detectLanguage (transcription_text tr)
                      else language tr)
      in if bidirectionalMode cs
         then determineTranslationDirection cs detected (transcription_text tr)
         else \<lparr>source = detected, target = targetLanguage cs\<rparr>)"

definition translate_segment :: "transcription \<Rightarrow> state \<Rightarrow> (thrown + unit) \<times> state" where
  "translate_segment tr s =
     (case currentSettings s of
        None \<Rightarrow> (Inl (Thrown null_settings), s)
      | Some cs \<Rightarrow>
          (let direction = resolve_languages cs tr
           in if needsTranslation (transcription_text tr) (target direction)
              then translate_and_deliver tr direction s
              else (Inr (), s)))"

definition process_segment :: "audio \<Rightarrow> state \<Rightarrow> (thrown + unit) \<times> state" where
  "process_segment audioBlob s =
     (case retryWithBackoff_default
             (\<lambda>s'. case currentSettings s' of
                      None \<Rightarrow> (Inl null_settings, s')
                    | Some cs \<Rightarrow>
                        transcribe audioBlob
                          (if autoDetectLanguage cs then ''auto'' else sourceLanguage cs)
                          (mockMode cs) s')
             ''whisper_transcription'' s of
        (Inl t, s1) \<Rightarrow> (Inl t, s1)
      | (Inr tr, s1) \<Rightarrow>
          if blank (transcription_text tr) then (Inr (), s1) else translate_segment tr s1)"

text \<open>The \<open>catch\<close> block. An \<open>undefined\<close> caught there makes \<open>logError\<close> throw in turn, out of
  \<open>processAudioChunk\<close>.\<close>

definition pipeline_failed :: "thrown \<Rightarrow> state \<Rightarrow> js_error option \<times> state" where
  "pipeline_failed t s =
     (case t of
        ThrownUndefined \<Rightarrow> (Some (TypeError ''Cannot read properties of undefined''), s)
      | Thrown error \<Rightarrow>
          (case handleApiError error ''Translation Pipeline''
                  (logError error ''processAudioChunk'' s) of
             (errorInfo, s1) \<Rightarrow>
               (None, sendErrorToContentScript (getUserFriendlyMessage errorInfo) s1)))"

definition processAudioChunk :: "audio \<Rightarrow> state \<Rightarrow> js_error option \<times> state" where
  "processAudioChunk audioBlob s =
     (if \<not> isActive s \<or> currentSettings s = None then (None, s)
      else
        (case process_segment audioBlob s of
           (Inr _, s1) \<Rightarrow> (None, s1)
         | (Inl t, s1) \<Rightarrow> pipeline_failed t s1))"

text \<open>The three calls of the \<open>try\<close> block that go through the retrier (steps 1, 3 and 4),
  each by itself, as \<open>process_segment\<close> and \<open>translate_and_deliver\<close> make them.\<close>

definition transcription_stage :: "audio \<Rightarrow> state \<Rightarrow> (thrown + transcription) \<times> state" where
  "transcription_stage audioBlob s =
     retryWithBackoff_default
       (\<lambda>s'. case currentSettings s' of
                None \<Rightarrow> (Inl null_settings, s')
              | Some cs \<Rightarrow>
                  transcribe audioBlob
                    (if autoDetectLanguage cs then ''auto'' else sourceLanguage cs)
                    (mockMode cs) s')
       ''whisper_transcription'' s"

definition translation_stage ::
  "transcription \<Rightarrow> translation_direction \<Rightarrow> state \<Rightarrow> (thrown + translation) \<times> state" where
  "translation_stage tr direction s =
     retryWithBackoff_default
       (\<lambda>s'. case currentSettings s' of
                None \<Rightarrow> (Inl null_settings, s')
              | Some cs' \<Rightarrow>
                  translate (transcription_text tr) (source direction) (target direction)
                    (mockMode cs') s')
       ''translation'' s"

definition synthesis_stage ::
  "translation \<Rightarrow> translation_direction \<Rightarrow> state \<Rightarrow> (thrown + audio_buffer) \<times> state" where
  "synthesis_stage translated direction s =
     retryWithBackoff_default
       (\<lambda>s'. case currentSettings s' of
                None \<Rightarrow> (Inl null_settings, s')
              | Some cs' \<Rightarrow>
                  synthesize (translation_text translated) (target direction) (mockMode cs') s')
       ''tts_synthesis'' s"

subsection \<open>The health check\<close>

text \<open>The callback \<open>startHealthCheck\<close> registers, run every 30 seconds.\<close>

definition healthCheck :: "state \<Rightarrow> state" where
  "healthCheck s =
     (if isActive s then
        (case audioCapture s of
           None \<Rightarrow> s
         | Some ac \<Rightarrow>
             if \<not> snd (getStatus ac) then
               restartTranslation
                 (emit (Console LWarn ''Audio capture lost, attempting to restart...'' None) s)
             else if \<not> fst (getStatus ac) then
               restartTranslation
                 (emit (Console LWarn ''Audio capture stopped, attempting to restart...'' None) s)
             else if isFeatureDisabled (errorHandler s) ''audio_error'' ''health_check'' then
               sendErrorToContentScript
                 ''Too many audio errors. Please check your microphone settings.''
                 (stopTranslation
                    (emit (Console LWarn
                             ''Too many audio errors, temporarily disabling translation...''
                             None) s))
             else s)
      else s)"

subsection \<open>\<open>handleMessage\<close> and the callbacks\<close>

text \<open>
  What the service is asked to do, one request after the other: the three messages of
  \<open>handleMessage\<close> that change the service, a chunk handed over by the capture, and a
  tick of the health check's timer. \<open>handleMessage\<close> catches what \<open>startTranslation\<close>
  throws, logs it and answers the sender; the answer is not part of the state. The
  messages \<open>GET_STATUS\<close> and \<open>TEST_APIS\<close> only read the service and are left out.
\<close>

datatype activity =
  START_TRANSLATION | STOP_TRANSLATION | UPDATE_SETTINGS settings_patch | AUDIO_CHUNK audio |
  HEALTH_CHECK

fun perform :: "activity \<Rightarrow> state \<Rightarrow> state" where
  "perform START_TRANSLATION s =
     (case startTranslation s of
        (None, s1) \<Rightarrow> s1
      | (Some error, s1) \<Rightarrow> emit (Console LError ''Error handling message:'' (Some error)) s1)"
| "perform STOP_TRANSLATION s = stopTranslation s"
| "perform (UPDATE_SETTINGS p) s = updateSettings p s"
| "perform (AUDIO_CHUNK audioBlob) s = snd (processAudioChunk audioBlob s)"
| "perform HEALTH_CHECK s = healthCheck s"

fun run :: "activity list \<Rightarrow> state \<Rightarrow> state" where
  "run [] s = s"
| "run (x # xs) s = run xs (perform x s)"

section \<open>Reading a trace\<close>

text \<open>The waits of the retrier recorded in a trace, in order.\<close>

fun waits :: "effect list \<Rightarrow> int list" where
  "waits [] = []"
| "waits (Slept ms # xs) = ms # waits xs"
| "waits (x # xs) = waits xs"

text \<open>The entries of a trace that tell how a segment ended: playback started, playback
  failed (the log line of \<open>playAudio\<close>), a success event, an error event.\<close>

datatype mark = Played | PlaybackFailure | ResultEvent | ErrorEvent

fun mark_of :: "effect \<Rightarrow> mark option" where
  "mark_of (Playing b v) = Some Played"
| "mark_of (Console lvl label e) =
     (if lvl = LError \<and> label = ''Error playing audio:'' then Some PlaybackFailure else None)"
| "mark_of (TRANSLATION_RESULT ev) = Some ResultEvent"
| "mark_of (TRANSLATION_ERROR m) = Some ErrorEvent"
| "mark_of x = None"

fun marks :: "effect list \<Rightarrow> mark list" where
  "marks [] = []"
| "marks (x # xs) = (case mark_of x of Some m \<Rightarrow> m # marks xs | None \<Rightarrow> marks xs)"

text \<open>\<open>adds s s' ms\<close>: the state \<open>s'\<close> has the trace of \<open>s\<close> and more, and the marks of what
  was added are \<open>ms\<close>. \<open>segment_outcome\<close> lists what the \<open>try\<close> block of
  \<open>processAudioChunk\<close> can have added when it returns or throws.\<close>

definition adds :: "state \<Rightarrow> state \<Rightarrow> mark list \<Rightarrow> bool" where
  "adds s s' ms \<longleftrightarrow> (\<exists>t. trace s' = trace s @ t \<and> marks t = ms)"

definition segment_outcome :: "(thrown + unit) \<Rightarrow> state \<Rightarrow> state \<Rightarrow> bool" where
  "segment_outcome r s s' \<longleftrightarrow>
     (case r of
        Inr _ \<Rightarrow> adds s s' [] \<or> adds s s' [Played, ResultEvent]
      | Inl ThrownUndefined \<Rightarrow> adds s s' []
      | Inl (Thrown e) \<Rightarrow> adds s s' [] \<or> adds s s' [PlaybackFailure])"

text \<open>The events of a trace: the success events, and the messages of the error events.\<close>

fun results :: "effect list \<Rightarrow> result_event list" where
  "results [] = []"
| "results (TRANSLATION_RESULT ev # xs) = ev # results xs"
| "results (x # xs) = results xs"

fun error_events :: "effect list \<Rightarrow> string list" where
  "error_events [] = []"
| "error_events (TRANSLATION_ERROR m # xs) = m # error_events xs"
| "error_events (x # xs) = error_events xs"

text \<open>The errors \<open>handleAudioError\<close> was handed by \<open>startTranslation\<close>, read off its log
  lines.\<close>

fun audio_errors :: "effect list \<Rightarrow> js_error list" where
  "audio_errors [] = []"
| "audio_errors (Console lvl label (Some e) # xs) =
     (if lvl = LError \<and> label = ''Audio error in startTranslation:''
      then e # audio_errors xs else audio_errors xs)"
| "audio_errors (x # xs) = audio_errors xs"

section \<open>Sample states\<close>

text \<open>The service after a successful \<open>startTranslation\<close> with the default settings, and the
  same with the real clients (\<open>mockMode\<close> off).\<close>

definition active_service :: state where
  "active_service =
     new_BackgroundService
       \<lparr>isActive := True, currentSettings := Some DEFAULT_SETTINGS,
        audioCapture := Some (new_AudioCapture\<lparr>isCapturing := True, audioContext := True,
                                chunkCallbacks := 1\<rparr>)\<rparr>"

definition live_service :: state where
  "live_service = active_service\<lparr>currentSettings := Some (DEFAULT_SETTINGS\<lparr>mockMode := False\<rparr>)\<rparr>"

text \<open>The Arabic greeting of \<open>getMockTranscription\<close>'s fallback literal, and a backend that
  transcribes it, translates it and synthesizes two bytes of audio.\<close>

definition arabic_greeting :: jsstring where
  "arabic_greeting =
     [0x645, 0x631, 0x62d, 0x628, 0x627, 0x60c, 0x20, 0x643, 0x64a, 0x641, 0x20, 0x62d, 0x627,
      0x644, 0x643, 0x61f]"

definition working_backend :: "state \<Rightarrow> state" where
  "working_backend s =
     s\<lparr>net_transcribe :=
         [\<lambda>_. Response 200 None
                (Inr \<lparr>json_text = arabic_greeting, json_language = Some ''ar'',
                      json_confidence = Some (95 / 100)\<rparr>)],
       net_translate :=
         [\<lambda>_. Response 200 None
                (Inr \<lparr>json_translatedText = Some (ascii ''Hello, how are you?''),
                      json_translation_confidence = Some (9 / 10),
                      json_sourceLanguage = None, json_targetLanguage = None\<rparr>)],
       net_synthesize := [\<lambda>_. Response 200 None (Inr [0x52, 0x49])]\<rparr>"

text \<open>The same, with a loudspeaker that cannot decode the synthesized audio.\<close>

definition playback_failing :: state where
  "playback_failing =
     (working_backend live_service)
       \<lparr>speaker := [\<lparr>create_context = None,
                     decode_audio = Some (Error ''Unable to decode audio data'')\<rparr>]\<rparr>"


text \<open>A backend whose upstream credential is invalid: every transcription request is
  answered \<open>401 {error: 'Invalid API key'}\<close>, as \<open>backend/server.js\<close> does. Five answers
  are on offer.\<close>

definition unauthorized :: "audio \<times> string \<Rightarrow> whisper_json response" where
  "unauthorized request = Response 401 (Some ''Invalid API key'') (Inl (Error []))"

definition unauthorized_backend :: state where
  "unauthorized_backend =
     live_service\<lparr>net_transcribe :=
       [unauthorized, unauthorized, unauthorized, unauthorized, unauthorized]\<rparr>"

text \<open>\<open>trackError\<close> called \<open>n\<close> times for one pair, and the running service after six
  such calls for the pair the health check reads. No function of the extension makes
  these calls.\<close>

fun track_errors :: "nat \<Rightarrow> string \<Rightarrow> string \<Rightarrow> state \<Rightarrow> state" where
  "track_errors 0 errorType context s = s"
| "track_errors (Suc n) errorType context s =
     track_errors n errorType context (snd (trackError errorType context s))"

definition six_audio_errors :: state where
  "six_audio_errors = track_errors 6 ''audio_error'' ''health_check'' active_service"

text \<open>The service as constructed, with a microphone that another application holds:
  \<open>getUserMedia\<close> rejects six times with \<open>NotReadableError\<close>, and opens after that. Six
  \<open>START_TRANSLATION\<close> messages fail there, the seventh starts the pipeline.\<close>

definition device_in_use :: js_error where
  "device_in_use = \<lparr>error_name = ''NotReadableError'', error_message = ''Device in use''\<rparr>"

definition busy_microphone :: state where
  "busy_microphone =
     new_BackgroundService\<lparr>microphone :=
       [Some device_in_use, Some device_in_use, Some device_in_use, Some device_in_use,
        Some device_in_use, Some device_in_use]\<rparr>"

definition six_failed_starts :: state where
  "six_failed_starts = run (replicate 6 START_TRANSLATION) busy_microphone"

definition seven_starts :: state where
  "seven_starts = perform START_TRANSLATION six_failed_starts"





text \<open>The Hebrew word shalom, four code units of the Hebrew block.\<close>

definition shalom :: jsstring where
  "shalom = [0x5E9, 0x5DC, 0x5D5, 0x5DD]"

section \<open>The words of the claims\<close>

text \<open>``ASCII-only'' text, in the words of claim C8.\<close>

definition ascii_only :: "jsstring \<Rightarrow> bool" where
  "ascii_only t \<longleftrightarrow> list_all (\<lambda>c. c \<le> 0x7F) t"



section \<open>Suspension points leave the rest of the state alone\<close>

lemma updateSettings_fields [simp]:
  "errorHandler (updateSettings p s) = errorHandler s"
  "trace (updateSettings p s) = trace s"
  "translationAPI (updateSettings p s) = translationAPI s"
  "ttsAPI (updateSettings p s) = ttsAPI s"
  "isActive (updateSettings p s) = isActive s"
  "audioCapture (updateSettings p s) = audioCapture s"
  "inbox (updateSettings p s) = inbox s"
  "net_transcribe (updateSettings p s) = net_transcribe s"
  "net_translate (updateSettings p s) = net_translate s"
  "net_synthesize (updateSettings p s) = net_synthesize s"
  "speaker (updateSettings p s) = speaker s"
  "microphone (updateSettings p s) = microphone s"
  by (simp_all add: updateSettings_def split: option.splits)

lemma deliver_all_fields [simp]:
  "errorHandler (deliver_all ps s) = errorHandler s"
  "trace (deliver_all ps s) = trace s"
  "translationAPI (deliver_all ps s) = translationAPI s"
  "ttsAPI (deliver_all ps s) = ttsAPI s"
  "isActive (deliver_all ps s) = isActive s"
  "audioCapture (deliver_all ps s) = audioCapture s"
  "inbox (deliver_all ps s) = inbox s"
  "net_transcribe (deliver_all ps s) = net_transcribe s"
  "net_translate (deliver_all ps s) = net_translate s"
  "net_synthesize (deliver_all ps s) = net_synthesize s"
  "speaker (deliver_all ps s) = speaker s"
  "microphone (deliver_all ps s) = microphone s"
  unfolding deliver_all_def by (induction ps arbitrary: s) simp_all

lemma yield_fields [simp]:
  "errorHandler (yield s) = errorHandler s"
  "trace (yield s) = trace s"
  "translationAPI (yield s) = translationAPI s"
  "ttsAPI (yield s) = ttsAPI s"
  "isActive (yield s) = isActive s"
  "audioCapture (yield s) = audioCapture s"
  "net_transcribe (yield s) = net_transcribe s"
  "net_translate (yield s) = net_translate s"
  "net_synthesize (yield s) = net_synthesize s"
  "speaker (yield s) = speaker s"
  "microphone (yield s) = microphone s"
  by (simp_all add: yield_def split: list.splits)

lemma emit_fields [simp]:
  "trace (emit x s) = trace s @ [x]"
  "errorHandler (emit x s) = errorHandler s"
  "translationAPI (emit x s) = translationAPI s"
  "ttsAPI (emit x s) = ttsAPI s"
  "isActive (emit x s) = isActive s"
  "audioCapture (emit x s) = audioCapture s"
  "currentSettings (emit x s) = currentSettings s"
  "inbox (emit x s) = inbox s"
  "net_transcribe (emit x s) = net_transcribe s"
  "net_translate (emit x s) = net_translate s"
  "net_synthesize (emit x s) = net_synthesize s"
  "speaker (emit x s) = speaker s"
  "microphone (emit x s) = microphone s"
  "stored_settings (emit x s) = stored_settings s"
  by (simp_all add: emit_def)

lemma waits_append [simp]: "waits (xs @ ys) = waits xs @ waits ys"
  by (induction xs rule: waits.induct) simp_all

lemma marks_append [simp]: "marks (xs @ ys) = marks xs @ marks ys"
  by (induction xs) (simp_all split: option.splits)

section \<open>The retrier\<close>

lemma retry_loop_fail_last:
  "fn s = (Inl e, s1) \<Longrightarrow> int attempt = m \<Longrightarrow>
   retry_loop fn ctx m attempt l s =
     (Inl (Thrown e),
      emit (Console LError (''Max retries exceeded for '' @ ctx @ '':'') (Some e)) s1)"
  by (subst retry_loop.simps) simp

lemma retry_loop_fail_more:
  "fn s = (Inl e, s1) \<Longrightarrow> int attempt < m \<Longrightarrow>
   retry_loop fn ctx m attempt l s =
     retry_loop fn ctx m (attempt + 1) (Thrown e) (retry_wait ctx m attempt e s1)"
  by (subst retry_loop.simps) simp

lemma retry_loop_success:
  "fn s = (Inr v, s1) \<Longrightarrow> int attempt \<le> m \<Longrightarrow> retry_loop fn ctx m attempt l s = (Inr v, s1)"
  by (subst retry_loop.simps) simp

lemma retry_loop_exhausted:
  "m < int attempt \<Longrightarrow> retry_loop fn ctx m attempt l s = (Inl l, s)"
  by (subst retry_loop.simps) simp

lemma retry_wait_fields [simp]:
  "errorHandler (retry_wait ctx m attempt e s) = errorHandler s"
  "trace (retry_wait ctx m attempt e s) =
     trace s @ [RetryWarning (attempt + 1) (m + 1) ctx (calculateDelay (errorHandler s) attempt)
                  (error_message e),
                Slept (calculateDelay (errorHandler s) attempt)]"
  by (simp_all add: retry_wait_def sleep_def Let_def)

text \<open>
  Claim C4. With \<open>maxRetries = 3\<close>, an operation that fails at every call (throwing
  \<open>e s\<close> and leaving the state \<open>nxt s\<close> when called in state \<open>s\<close>) is called exactly four
  times: in the starting state and after each of the three waits. The retrier then throws
  the very error of the fourth call, \<open>e s3\<close>, as it is.
\<close>

theorem retryWithBackoff_always_failing:
  "retryWithBackoff (\<lambda>s. (Inl (e s), nxt s)) ctx 3 s0 =
     (let s1 = retry_wait ctx 3 0 (e s0) (nxt s0);
          s2 = retry_wait ctx 3 1 (e s1) (nxt s1);
          s3 = retry_wait ctx 3 2 (e s2) (nxt s2)
      in (Inl (Thrown (e s3)),
          emit (Console LError (''Max retries exceeded for '' @ ctx @ '':'') (Some (e s3)))
            (nxt s3)))"
  unfolding retryWithBackoff_def Let_def
  apply (subst retry_loop_fail_more [where e = "e s0" and ?s1.0 = "nxt s0"]; simp)
  apply (subst retry_loop_fail_more [where e = "e (retry_wait ctx 3 0 (e s0) (nxt s0))"]; simp)
  apply (subst retry_loop_fail_more; simp)
  apply (subst retry_loop_fail_last; simp add: numeral_2_eq_2)
  done

lemma retry_loop_waits:
  "m = k + n \<Longrightarrow>
   waits (trace (snd (retry_loop (\<lambda>s. (Inl err :: js_error + 'a, s)) ctx (int m) k l s))) =
     waits (trace s) @ map (calculateDelay (errorHandler s)) [k..<m]"
proof (induction n arbitrary: k l s)
  case 0
  then have "int k = int m" by simp
  then show ?case
    by (simp add: retry_loop_fail_last [where e = err and ?s1.0 = s])
next
  case (Suc n)
  let ?f = "\<lambda>s. (Inl err :: js_error + 'a, s)"
  from Suc.prems have lt: "k < m" and m: "m = Suc k + n" by simp_all
  have step: "retry_loop ?f ctx (int m) k l s =
              retry_loop ?f ctx (int m) (k + 1) (Thrown err) (retry_wait ctx (int m) k err s)"
    using lt by (intro retry_loop_fail_more) simp_all
  have "waits (trace (snd (retry_loop ?f ctx (int m) (Suc k) (Thrown err)
                             (retry_wait ctx (int m) k err s)))) =
        waits (trace (retry_wait ctx (int m) k err s)) @
        map (calculateDelay (errorHandler (retry_wait ctx (int m) k err s))) [Suc k..<m]"
    by (rule Suc.IH [OF m])
  then show ?case
    using lt by (simp add: step upt_conv_Cons)
qed

text \<open>
  Claim C5. The delay computed for attempt \<open>i\<close> is
  \<open>min (initialDelay * multiplier ^ i) maxDelay\<close>, and these are the waits of the retrier:
  for an operation that keeps failing and a budget of \<open>m\<close> retries it waits that long
  after attempt \<open>i\<close>, for each \<open>i\<close> below \<open>m\<close>. With the configuration of \<open>constants.js\<close>
  the delays of attempts 0, 1, 2 are 1000, 2000, 4000, the waits between the four calls.
\<close>

theorem calculateDelay_backoff:
  "calculateDelay eh i = min (initialDelay eh * backoffMultiplier eh ^ i) (maxDelay eh) \<and>
   waits (trace (snd (retryWithBackoff (\<lambda>s. (Inl err :: js_error + 'a, s)) ctx (int m) s))) =
     waits (trace s) @
     map (\<lambda>i. min (initialDelay (errorHandler s) * backoffMultiplier (errorHandler s) ^ i)
                 (maxDelay (errorHandler s))) [0..<m] \<and>
   map (calculateDelay new_ErrorHandler) [0, 1, 2] = [1000, 2000, 4000] \<and>
   waits (trace (snd (retryWithBackoff_default (\<lambda>s. (Inl err :: js_error + 'a, s)) ctx
                        (s\<lparr>errorHandler := new_ErrorHandler\<rparr>)))) =
     waits (trace s) @ [1000, 2000, 4000]"
proof -
  have cfg: "maxRetries new_ErrorHandler = 3" "initialDelay new_ErrorHandler = 1000"
    "maxDelay new_ErrorHandler = 10000" "backoffMultiplier new_ErrorHandler = 2"
    by (simp_all add: new_ErrorHandler_def RETRY_CONFIG_def)
  have delays: "calculateDelay new_ErrorHandler 0 = 1000"
    "calculateDelay new_ErrorHandler (Suc 0) = 2000"
    "calculateDelay new_ErrorHandler 2 = 4000"
    "calculateDelay new_ErrorHandler (Suc (Suc 0)) = 4000"
    by (simp_all add: calculateDelay_def cfg)
  have formula: "calculateDelay eh i = min (initialDelay eh * backoffMultiplier eh ^ i) (maxDelay eh)"
    for eh i
    by (simp add: calculateDelay_def)
  have general:
    "waits (trace (snd (retryWithBackoff (\<lambda>s. (Inl err :: js_error + 'a, s)) ctx (int m) s))) =
       waits (trace s) @ map (calculateDelay (errorHandler s)) [0..<m]"
    using retry_loop_waits [of m 0 m err ctx ThrownUndefined s]
    by (simp add: retryWithBackoff_def)
  have default:
    "waits (trace (snd (retryWithBackoff (\<lambda>s. (Inl err :: js_error + 'a, s)) ctx 3
                          (s\<lparr>errorHandler := new_ErrorHandler\<rparr>)))) =
       waits (trace s) @ [1000, 2000, 4000]"
    using retry_loop_waits [of 3 0 3 err ctx ThrownUndefined "s\<lparr>errorHandler := new_ErrorHandler\<rparr>"]
    by (simp add: retryWithBackoff_def delays upt_conv_Cons numeral_3_eq_3 numeral_2_eq_2)
  show ?thesis
    using general default
    by (simp add: retryWithBackoff_default_def cfg delays formula [abs_def])
qed

section \<open>What a segment adds to the trace\<close>

lemma adds_refl [simp]: "adds s s []"
  by (simp add: adds_def)

lemma adds_trans: "adds s s1 m1 \<Longrightarrow> adds s1 s2 m2 \<Longrightarrow> adds s s2 (m1 @ m2)"
  by (auto simp add: adds_def)

lemma adds_same_trace: "trace s' = trace s \<Longrightarrow> adds s s' []"
  by (simp add: adds_def)

lemma adds_emit: "adds s (emit x s) (marks [x])"
  by (simp add: adds_def)

lemma adds_quiet_then: "adds s s1 [] \<Longrightarrow> adds s1 s2 ms \<Longrightarrow> adds s s2 ms"
  using adds_trans [of s s1 "[]" s2 ms] by simp

lemma adds_then_quiet: "adds s s1 ms \<Longrightarrow> adds s1 s2 [] \<Longrightarrow> adds s s2 ms"
  using adds_trans [of s s1 ms s2 "[]"] by simp

lemma transcribe_quiet: "adds s (snd (transcribe a l m s)) []"
  by (auto simp add: transcribe_def getMockTranscription_def fetch_transcribe_def adds_def
      split: prod.splits sum.splits list.splits)

lemma translate_quiet: "adds s (snd (translate t src tgt m s)) []"
  by (auto simp add: translate_def getMockTranslation_def fetch_translate_def adds_def Let_def
      split: prod.splits sum.splits list.splits)

lemma synthesize_quiet: "adds s (snd (synthesize t l m s)) []"
  by (auto simp add: synthesize_def getMockAudio_def fetch_synthesize_def adds_def
      split: prod.splits sum.splits list.splits if_splits)

lemma retry_wait_quiet: "adds s (retry_wait ctx m k e s) []"
  by (simp add: adds_def)

lemma retry_loop_quiet:
  "(\<And>s. adds s (snd (fn s)) []) \<Longrightarrow> adds s (snd (retry_loop fn ctx m k l s)) []"
proof (induction fn ctx m k l s rule: retry_loop.induct)
  case (1 fn ctx m k l s)
  note quiet = "1.prems"
  show ?case
  proof (cases "int k \<le> m")
    case False
    then show ?thesis by (simp add: retry_loop_exhausted)
  next
    case True
    obtain r s1 where f: "fn s = (r, s1)" by (cases "fn s")
    have q1: "adds s s1 []" using quiet [of s] f by simp
    show ?thesis
    proof (cases r)
      case (Inr v)
      then show ?thesis using f True q1 by (simp add: retry_loop_success)
    next
      case (Inl e)
      show ?thesis
      proof (cases "int k = m")
        case last: True
        have "adds s1 (emit (Console LError (''Max retries exceeded for '' @ ctx @ '':'') (Some e)) s1) []"
          using adds_emit [of s1 "Console LError (''Max retries exceeded for '' @ ctx @ '':'') (Some e)"]
          by simp
        then show ?thesis
          using f Inl last q1 by (simp add: retry_loop_fail_last adds_quiet_then)
      next
        case more: False
        have lt: "int k < m" using True more by simp
        have ih: "adds (retry_wait ctx m k e s1)
                    (snd (retry_loop fn ctx m (k + 1) (Thrown e) (retry_wait ctx m k e s1))) []"
          using "1.IH" [OF True f [symmetric] Inl more quiet] .
        have "adds s (retry_wait ctx m k e s1) []"
          using q1 retry_wait_quiet adds_quiet_then by blast
        then show ?thesis
          using f Inl lt ih by (simp add: retry_loop_fail_more adds_quiet_then)
      qed
    qed
  qed
qed

lemma retryWithBackoff_default_quiet:
  "(\<And>s. adds s (snd (fn s)) []) \<Longrightarrow> adds s (snd (retryWithBackoff_default fn ctx s)) []"
  by (simp add: retryWithBackoff_default_def retryWithBackoff_def retry_loop_quiet)

lemma playAudio_marks:
  "adds s (snd (playAudio b v s))
     (case fst (playAudio b v s) of Inr _ \<Rightarrow> [Played] | Inl _ \<Rightarrow> [PlaybackFailure])"
  by (auto simp add: playAudio_def playback_failed_def adds_def Let_def
      split: option.splits list.splits)


lemma outcome_after_quiet:
  "adds s s1 [] \<Longrightarrow> segment_outcome r s1 s2 \<Longrightarrow> segment_outcome r s s2"
  by (auto simp add: segment_outcome_def split: sum.splits thrown.splits
      dest: adds_quiet_then)

lemma outcome_quiet_failure: "adds s s1 [] \<Longrightarrow> segment_outcome (Inl t) s s1"
  by (simp add: segment_outcome_def split: thrown.splits)

lemma outcome_quiet_return: "adds s s1 [] \<Longrightarrow> segment_outcome (Inr u) s s1"
  by (simp add: segment_outcome_def)

lemma sendResults_marks: "adds s (sendResultsToContentScript ev s) [ResultEvent]"
  by (simp add: sendResultsToContentScript_def adds_def)

lemma sendError_marks: "adds s (sendErrorToContentScript msg s) [ErrorEvent]"
  by (simp add: sendErrorToContentScript_def adds_def)

lemma updateSettings_keeps_settings:
  "\<exists>cs. currentSettings s = Some cs \<Longrightarrow> \<exists>cs. currentSettings (updateSettings p s) = Some cs"
  by (auto simp add: updateSettings_def split: option.splits)

lemma deliver_all_keeps_settings:
  "\<exists>cs. currentSettings s = Some cs \<Longrightarrow> \<exists>cs. currentSettings (deliver_all ps s) = Some cs"
proof (induction ps arbitrary: s)
  case Nil
  then show ?case by (simp add: deliver_all_def)
next
  case (Cons p ps)
  have "\<exists>cs. currentSettings (updateSettings p s) = Some cs"
    using Cons.prems by (rule updateSettings_keeps_settings)
  then show ?case using Cons.IH by (simp add: deliver_all_def)
qed

lemma yield_keeps_settings:
  "\<exists>cs. currentSettings s = Some cs \<Longrightarrow> \<exists>cs. currentSettings (yield s) = Some cs"
proof (cases "inbox s")
  case Nil
  then show "\<exists>cs. currentSettings s = Some cs \<Longrightarrow> ?thesis" by (simp add: yield_def)
next
  case (Cons ps rest)
  assume "\<exists>cs. currentSettings s = Some cs"
  then have "\<exists>cs. currentSettings (s\<lparr>inbox := rest\<rparr>) = Some cs" by simp
  then show ?thesis
    using Cons deliver_all_keeps_settings [of "s\<lparr>inbox := rest\<rparr>" ps]
    by (simp add: yield_def)
qed

lemma playAudio_keeps_settings:
  assumes "\<exists>cs. currentSettings s = Some cs"
  shows "\<exists>cs. currentSettings (snd (playAudio b v s)) = Some cs"
proof -
  have y: "\<And>f g. \<exists>cs. currentSettings (yield (s\<lparr>speaker := f, ttsAPI := g\<rparr>)) = Some cs"
    using assms by (intro yield_keeps_settings) simp
  have y': "\<And>f g x. \<exists>cs. currentSettings (yield ((emit x (s\<lparr>speaker := f\<rparr>))\<lparr>ttsAPI := g\<rparr>)) = Some cs"
    using assms by (intro yield_keeps_settings) simp
  show ?thesis
    using assms y y'
    by (simp add: playAudio_def playback_failed_def Let_def split: option.splits list.splits)
qed

lemma deliver_outcome:
  "segment_outcome (fst (deliver tr trl src tgt b s)) s (snd (deliver tr trl src tgt b s))"
proof (cases "currentSettings s")
  case None
  then show ?thesis by (simp add: deliver_def segment_outcome_def)
next
  case (Some cs)
  obtain r s1 where p: "playAudio b (volume cs) s = (r, s1)" by (cases "playAudio b (volume cs) s")
  have pm: "adds s s1 (case r of Inr _ \<Rightarrow> [Played] | Inl _ \<Rightarrow> [PlaybackFailure])"
    using playAudio_marks [of s b "volume cs"] p by simp
  show ?thesis
  proof (cases r)
    case (Inl e)
    then show ?thesis using Some p pm by (simp add: deliver_def segment_outcome_def)
  next
    case (Inr ok')
    show ?thesis
    proof (cases "currentSettings s1")
      case None
      then show ?thesis using Some p playAudio_keeps_settings [of s b "volume cs"] by simp
    next
      case cs1: (Some cs1)
      have "adds s (sendResultsToContentScript
                 \<lparr>originalText = transcription_text tr, translatedText = translation_text trl,
                  event_sourceLanguage = src, event_targetLanguage = tgt,
                  confidence = transcription_confidence tr,
                  bidirectional = bidirectionalMode cs1\<rparr> s1) ([Played] @ [ResultEvent])"
        using pm Inr by (intro adds_trans [OF _ sendResults_marks]) simp
      then show ?thesis using Some p Inr cs1 by (simp add: deliver_def segment_outcome_def)
    qed
  qed
qed

lemma translate_and_deliver_outcome:
  "segment_outcome (fst (translate_and_deliver tr d s)) s (snd (translate_and_deliver tr d s))"
proof -
  let ?f = "\<lambda>s'. case currentSettings s' of
                    None \<Rightarrow> (Inl null_settings, s')
                  | Some cs' \<Rightarrow>
                      translate (transcription_text tr) (source d) (target d) (mockMode cs') s'"
  have fq: "\<And>s. adds s (snd (?f s)) []"
    by (simp add: translate_quiet split: option.splits)
  obtain r1 s1 where r1: "retryWithBackoff_default ?f ''translation'' s = (r1, s1)"
    by (cases "retryWithBackoff_default ?f ''translation'' s")
  have q1: "adds s s1 []"
    using retryWithBackoff_default_quiet [of ?f s "''translation''", OF fq] r1 by simp
  show ?thesis
  proof (cases r1)
    case (Inl t)
    then show ?thesis using r1 q1 by (simp add: translate_and_deliver_def outcome_quiet_failure)
  next
    case (Inr trl)
    let ?g = "\<lambda>s'. case currentSettings s' of
                      None \<Rightarrow> (Inl null_settings, s')
                    | Some cs' \<Rightarrow> synthesize (translation_text trl) (target d) (mockMode cs') s'"
    have gq: "\<And>s. adds s (snd (?g s)) []"
      by (simp add: synthesize_quiet split: option.splits)
    obtain r2 s2 where r2: "retryWithBackoff_default ?g ''tts_synthesis'' s1 = (r2, s2)"
      by (cases "retryWithBackoff_default ?g ''tts_synthesis'' s1")
    have q2: "adds s1 s2 []"
      using retryWithBackoff_default_quiet [of ?g s1 "''tts_synthesis''", OF gq] r2 by simp
    have q: "adds s s2 []" using q1 q2 adds_quiet_then by blast
    show ?thesis
    proof (cases r2)
      case (Inl t)
      then show ?thesis
        using r1 Inr r2 q by (simp add: translate_and_deliver_def outcome_quiet_failure)
    next
      case b: (Inr b)
      show ?thesis
        using r1 Inr r2 b outcome_after_quiet [OF q deliver_outcome]
        by (simp add: translate_and_deliver_def)
    qed
  qed
qed

lemma translate_segment_outcome:
  "segment_outcome (fst (translate_segment tr s)) s (snd (translate_segment tr s))"
proof (cases "currentSettings s")
  case None
  then show ?thesis by (simp add: translate_segment_def segment_outcome_def)
next
  case (Some cs)
  show ?thesis
  proof (cases "needsTranslation (transcription_text tr) (target (resolve_languages cs tr))")
    case True
    then show ?thesis
      using Some translate_and_deliver_outcome [of tr "resolve_languages cs tr" s]
      by (simp add: translate_segment_def Let_def)
  next
    case False
    then show ?thesis using Some by (simp add: translate_segment_def Let_def segment_outcome_def)
  qed
qed

lemma process_segment_outcome:
  "segment_outcome (fst (process_segment a s)) s (snd (process_segment a s))"
proof -
  let ?f = "\<lambda>s'. case currentSettings s' of
                    None \<Rightarrow> (Inl null_settings, s')
                  | Some cs \<Rightarrow>
                      transcribe a (if autoDetectLanguage cs then ''auto'' else sourceLanguage cs)
                        (mockMode cs) s'"
  have fq: "\<And>s. adds s (snd (?f s)) []"
    by (simp add: transcribe_quiet split: option.splits)
  obtain r1 s1 where r1: "retryWithBackoff_default ?f ''whisper_transcription'' s = (r1, s1)"
    by (cases "retryWithBackoff_default ?f ''whisper_transcription'' s")
  have q1: "adds s s1 []"
    using retryWithBackoff_default_quiet [of ?f s "''whisper_transcription''", OF fq] r1 by simp
  show ?thesis
  proof (cases r1)
    case (Inl t)
    then show ?thesis using r1 q1 by (simp add: process_segment_def outcome_quiet_failure)
  next
    case (Inr tr)
    show ?thesis
      using r1 Inr q1 outcome_after_quiet [OF q1 translate_segment_outcome [of tr s1]]
      by (simp add: process_segment_def outcome_quiet_return)
  qed
qed

lemma pipeline_failed_marks:
  "adds s (snd (pipeline_failed (Thrown e) s)) [ErrorEvent]"
proof -
  have "adds s (snd (handleApiError e ''Translation Pipeline'' (logError e ''processAudioChunk'' s))) []"
    by (simp add: handleApiError_def logError_def adds_def)
  then show ?thesis
    by (auto simp add: pipeline_failed_def split: prod.splits
        intro: adds_quiet_then [OF _ sendError_marks])
qed

lemma processAudioChunk_adds:
  "\<exists>ms. adds s (snd (processAudioChunk a s)) ms \<and>
     ms \<in> {[], [Played, ResultEvent], [ErrorEvent], [PlaybackFailure, ErrorEvent]}"
proof (cases "\<not> isActive s \<or> currentSettings s = None")
  case True
  then have "adds s (snd (processAudioChunk a s)) []" by (auto simp add: processAudioChunk_def)
  then show ?thesis by blast
next
  case False
  obtain r s1 where r: "process_segment a s = (r, s1)" by (cases "process_segment a s")
  have o: "segment_outcome r s s1" using process_segment_outcome [of a s] r by simp
  show ?thesis
  proof (cases r)
    case (Inr u)
    then show ?thesis using False r o by (auto simp add: processAudioChunk_def segment_outcome_def)
  next
    case (Inl t)
    show ?thesis
    proof (cases t)
      case ThrownUndefined
      then show ?thesis
        using False r o Inl
        by (auto simp add: processAudioChunk_def segment_outcome_def pipeline_failed_def)
    next
      case (Thrown e)
      have "adds s s1 [] \<or> adds s s1 [PlaybackFailure]"
        using o Inl Thrown by (simp add: segment_outcome_def)
      then have "adds s (snd (pipeline_failed (Thrown e) s1)) [ErrorEvent] \<or>
                 adds s (snd (pipeline_failed (Thrown e) s1)) [PlaybackFailure, ErrorEvent]"
        using adds_trans [OF _ pipeline_failed_marks [of s1 e]] by fastforce
      then show ?thesis
        using False r Inl Thrown by (auto simp add: processAudioChunk_def)
    qed
  qed
qed


lemma process_segment_stages:
  "process_segment a s =
     (case transcription_stage a s of
        (Inl t, s1) \<Rightarrow> (Inl t, s1)
      | (Inr tr, s1) \<Rightarrow>
          if blank (transcription_text tr) then (Inr (), s1) else translate_segment tr s1)"
  unfolding process_segment_def transcription_stage_def by (rule refl)

lemma translate_and_deliver_stages:
  "translate_and_deliver tr d s =
     (case translation_stage tr d s of
        (Inl t, s1) \<Rightarrow> (Inl t, s1)
      | (Inr translated, s1) \<Rightarrow>
          (case synthesis_stage translated d s1 of
             (Inl t, s2) \<Rightarrow> (Inl t, s2)
           | (Inr audioBuffer, s2) \<Rightarrow>
               deliver tr translated (source d) (target d) audioBuffer s2))"
  unfolding translate_and_deliver_def translation_stage_def synthesis_stage_def by (rule refl)

lemma stages_quiet:
  "adds s (snd (transcription_stage a s)) []"
  "adds s (snd (translation_stage tr d s)) []"
  "adds s (snd (synthesis_stage trl d s)) []"
  unfolding transcription_stage_def translation_stage_def synthesis_stage_def
  by (intro retryWithBackoff_default_quiet;
      simp add: transcribe_quiet translate_quiet synthesize_quiet split: option.splits)+

lemma segment_delivery_run:
  assumes "isActive s" and "currentSettings s \<noteq> None"
    and "transcription_stage a s = (Inr tr, s1)" and "\<not> blank (transcription_text tr)"
    and "currentSettings s1 = Some cs1"
    and "needsTranslation (transcription_text tr) (target (resolve_languages cs1 tr))"
    and "translation_stage tr (resolve_languages cs1 tr) s1 = (Inr trl, s2)"
    and "synthesis_stage trl (resolve_languages cs1 tr) s2 = (Inr buf, s3)"
    and "currentSettings s3 = Some cs3"
    and "playAudio buf (volume cs3) s3 = (played, s4)"
  shows "case played of
           Inr _ \<Rightarrow>
             (\<exists>cs4. currentSettings s4 = Some cs4 \<and>
                processAudioChunk a s =
                  (None,
                   emit (TRANSLATION_RESULT
                           \<lparr>originalText = transcription_text tr,
                            translatedText = translation_text trl,
                            event_sourceLanguage = source (resolve_languages cs1 tr),
                            event_targetLanguage = target (resolve_languages cs1 tr),
                            confidence = transcription_confidence tr,
                            bidirectional = bidirectionalMode cs4\<rparr>) (yield s4))) \<and>
             adds s (snd (processAudioChunk a s)) [Played, ResultEvent]
         | Inl e \<Rightarrow>
             processAudioChunk a s = pipeline_failed (Thrown e) s4 \<and>
             adds s (snd (processAudioChunk a s)) [PlaybackFailure, ErrorEvent]"
proof -
  let ?d = "resolve_languages cs1 tr"
  have q: "adds s s3 []"
    using stages_quiet(1) [of s a] stages_quiet(2) [of s1 tr ?d] stages_quiet(3) [of s2 trl ?d]
      assms(3,7,8) adds_quiet_then
    by (metis snd_conv)
  have seg: "process_segment a s = deliver tr trl (source ?d) (target ?d) buf s3"
    using assms(3-8)
    by (simp add: process_segment_stages translate_segment_def translate_and_deliver_stages Let_def)
  have pm: "adds s3 s4 (case played of Inr _ \<Rightarrow> [Played] | Inl _ \<Rightarrow> [PlaybackFailure])"
    using playAudio_marks [of s3 buf "volume cs3"] assms(10) by simp
  show ?thesis
  proof (cases played)
    case (Inl e)
    have "processAudioChunk a s = pipeline_failed (Thrown e) s4"
      using assms(1,2,9,10) Inl seg by (auto simp add: processAudioChunk_def deliver_def)
    moreover have "adds s (snd (pipeline_failed (Thrown e) s4)) ([PlaybackFailure] @ [ErrorEvent])"
      using pm Inl q by (intro adds_trans [OF adds_quiet_then [OF q] pipeline_failed_marks]) simp
    ultimately show ?thesis using Inl by simp
  next
    case (Inr v)
    obtain cs4 where cs4: "currentSettings s4 = Some cs4"
      using playAudio_keeps_settings [of s3 buf "volume cs3"] assms(9,10) by auto
    let ?ev = "\<lparr>originalText = transcription_text tr, translatedText = translation_text trl,
                event_sourceLanguage = source ?d, event_targetLanguage = target ?d,
                confidence = transcription_confidence tr,
                bidirectional = bidirectionalMode cs4\<rparr>"
    have run: "processAudioChunk a s = (None, sendResultsToContentScript ?ev s4)"
      using assms(1,2,9,10) Inr seg cs4 by (auto simp add: processAudioChunk_def deliver_def)
    have "adds s (sendResultsToContentScript ?ev s4) ([Played] @ [ResultEvent])"
      using pm Inr q by (intro adds_trans [OF adds_quiet_then [OF q] sendResults_marks]) simp
    then show ?thesis
      using Inr run cs4 by (simp add: sendResultsToContentScript_def)
  qed
qed

lemma results_append [simp]: "results (xs @ ys) = results xs @ results ys"
  by (induction xs rule: results.induct) simp_all

lemma error_events_append [simp]: "error_events (xs @ ys) = error_events xs @ error_events ys"
  by (induction xs rule: error_events.induct) simp_all

lemma results_marks: "length (results t) = length (filter (\<lambda>m. m = ResultEvent) (marks t))"
  by (induction t rule: results.induct) simp_all

lemma error_events_marks:
  "length (error_events t) = length (filter (\<lambda>m. m = ErrorEvent) (marks t))"
  by (induction t rule: error_events.induct) simp_all

lemma last_added:
  assumes "u @ [x] = v @ t" and "t \<noteq> []"
  shows "\<exists>t'. t = t' @ [x]"
proof -
  have "last (v @ t) = last t" using assms(2) by simp
  then have "last t = x" using assms(1) by (metis last_snoc)
  then have "t = butlast t @ [x]" using assms(2) by (metis append_butlast_last_id)
  then show ?thesis ..
qed

text \<open>
  Claim C1, as amended. Take a segment, handled while the pipeline is active, whose
  transcription succeeds with a text that is not blank and needs translation, and whose
  translation and synthesis succeed. \<open>processAudioChunk\<close> then returns normally, and what
  it has added to the trace is as follows. If the playback succeeds: the start of
  playback, then exactly one success event, which carries the transcribed and the
  translated text, the resolved languages, the transcription's confidence and the
  \<open>bidirectionalMode\<close> setting, and no error event. If the playback fails: the log line
  of the failed playback, then exactly one error event, and no success event.
\<close>

theorem segment_delivery:
  assumes "isActive s" and "currentSettings s \<noteq> None"
    and "transcription_stage a s = (Inr tr, s1)" and "\<not> blank (transcription_text tr)"
    and "currentSettings s1 = Some cs1"
    and "needsTranslation (transcription_text tr) (target (resolve_languages cs1 tr))"
    and "translation_stage tr (resolve_languages cs1 tr) s1 = (Inr trl, s2)"
    and "synthesis_stage trl (resolve_languages cs1 tr) s2 = (Inr buf, s3)"
    and "currentSettings s3 = Some cs3"
    and "playAudio buf (volume cs3) s3 = (played, s4)"
  shows "\<exists>t. trace (snd (processAudioChunk a s)) = trace s @ t \<and>
           fst (processAudioChunk a s) = None \<and>
           (case played of
              Inr _ \<Rightarrow>
                marks t = [Played, ResultEvent] \<and> error_events t = [] \<and>
                (\<exists>cs4. currentSettings s4 = Some cs4 \<and>
                   results t =
                     [\<lparr>originalText = transcription_text tr,
                       translatedText = translation_text trl,
                       event_sourceLanguage = source (resolve_languages cs1 tr),
                       event_targetLanguage = target (resolve_languages cs1 tr),
                       confidence = transcription_confidence tr,
                       bidirectional = bidirectionalMode cs4\<rparr>])
            | Inl e \<Rightarrow>
                marks t = [PlaybackFailure, ErrorEvent] \<and> results t = [] \<and>
                length (error_events t) = 1)"
proof (cases played)
  case (Inl e)
  note both = segment_delivery_run [OF assms, unfolded Inl sum.case]
  note run = both [THEN conjunct1]
  from both [THEN conjunct2] obtain t where t: "trace (snd (processAudioChunk a s)) = trace s @ t"
    "marks t = [PlaybackFailure, ErrorEvent]"
    by (auto simp add: adds_def)
  have "length (results t) = 0" "length (error_events t) = 1"
    using t(2) by (simp_all add: results_marks error_events_marks)
  moreover have "fst (processAudioChunk a s) = None"
    using run by (simp add: pipeline_failed_def split: prod.splits)
  ultimately show ?thesis using t Inl by auto
next
  case (Inr v)
  let ?d = "resolve_languages cs1 tr"
  note both = segment_delivery_run [OF assms, unfolded Inr sum.case]
  from both obtain cs4 where cs4: "currentSettings s4 = Some cs4"
    and run: "processAudioChunk a s =
       (None,
        emit (TRANSLATION_RESULT
                \<lparr>originalText = transcription_text tr, translatedText = translation_text trl,
                 event_sourceLanguage = source ?d, event_targetLanguage = target ?d,
                 confidence = transcription_confidence tr,
                 bidirectional = bidirectionalMode cs4\<rparr>) (yield s4))"
    and ad: "adds s (snd (processAudioChunk a s)) [Played, ResultEvent]"
    by blast
  let ?ev = "\<lparr>originalText = transcription_text tr, translatedText = translation_text trl,
               event_sourceLanguage = source ?d, event_targetLanguage = target ?d,
               confidence = transcription_confidence tr,
               bidirectional = bidirectionalMode cs4\<rparr>"
  from ad obtain t where t: "trace (snd (processAudioChunk a s)) = trace s @ t"
    "marks t = [Played, ResultEvent]"
    by (auto simp add: adds_def)
  have ne: "t \<noteq> []" using t(2) by auto
  have "trace (yield s4) @ [TRANSLATION_RESULT ?ev] = trace s @ t"
    using t(1) run by (simp add: emit_def)
  then obtain t' where t': "t = t' @ [TRANSLATION_RESULT ?ev]"
    using last_added [OF _ ne] by blast
  have "length (results t) = 1" "length (error_events t) = 0"
    using t(2) by (simp_all add: results_marks error_events_marks)
  then have "results t' = []" "error_events t = []" using t' by simp_all
  then have "results t = [?ev]" using t' by simp
  then show ?thesis
    using t Inr cs4 run \<open>error_events t = []\<close> by auto
qed

theorem segment_delivery_witness:
  "marks (trace (snd (processAudioChunk [] (working_backend live_service)))) =
     [Played, ResultEvent] \<and>
   marks (trace (snd (processAudioChunk [] playback_failing))) = [PlaybackFailure, ErrorEvent]"
proof -
  let ?tr = "\<lparr>transcription_text = arabic_greeting, language = ''ar'',
               transcription_confidence = 95 / 100\<rparr>"
  let ?cs = "DEFAULT_SETTINGS\<lparr>mockMode := False\<rparr>"
  let ?d = "resolve_languages ?cs ?tr"
  let ?tl = "\<lparr>translation_text = ascii ''Hello, how are you?'',
               translation_confidence = Some (9 / 10),
               translation_sourceLanguage = Some ''ar'',
               translation_targetLanguage = Some ''en''\<rparr>"
  let ?buf = "BackendAudio [0x52, 0x49]"
  let ?err = "Error ''Audio playback failed: Unable to decode audio data''"

  define a1 where "a1 = snd (transcription_stage [] (working_backend live_service))"
  define a2 where "a2 = snd (translation_stage ?tr ?d a1)"
  define a3 where "a3 = snd (synthesis_stage ?tl ?d a2)"
  define a4 where "a4 = snd (playAudio ?buf (volume ?cs) a3)"
  have ae0: "isActive (working_backend live_service)" "currentSettings (working_backend live_service) \<noteq> None" "trace (working_backend live_service) = []"
    "\<not> blank (transcription_text ?tr)"
    "needsTranslation (transcription_text ?tr) (target ?d)"
    by code_simp+
  have "fst (transcription_stage [] (working_backend live_service)) = Inr ?tr" by code_simp
  then have ae1: "transcription_stage [] (working_backend live_service) = (Inr ?tr, a1)"
    by (simp add: a1_def prod_eq_iff)
  have ae2: "currentSettings a1 = Some ?cs" unfolding a1_def by code_simp
  have "fst (translation_stage ?tr ?d a1) = Inr ?tl" unfolding a1_def by code_simp
  then have ae3: "translation_stage ?tr ?d a1 = (Inr ?tl, a2)"
    by (simp add: a2_def prod_eq_iff)
  have "fst (synthesis_stage ?tl ?d a2) = Inr ?buf" unfolding a2_def a1_def by code_simp
  then have ae4: "synthesis_stage ?tl ?d a2 = (Inr ?buf, a3)"
    by (simp add: a3_def prod_eq_iff)
  have ae5: "currentSettings a3 = Some ?cs"
    unfolding a3_def a2_def a1_def by code_simp
  have "fst (playAudio ?buf (volume ?cs) a3) = Inr True"
    unfolding a3_def a2_def a1_def by code_simp
  then have ae6: "playAudio ?buf (volume ?cs) a3 = (Inr True, a4)"
    by (simp add: a4_def prod_eq_iff)

  define b1 where "b1 = snd (transcription_stage [] playback_failing)"
  define b2 where "b2 = snd (translation_stage ?tr ?d b1)"
  define b3 where "b3 = snd (synthesis_stage ?tl ?d b2)"
  define b4 where "b4 = snd (playAudio ?buf (volume ?cs) b3)"
  have be0: "isActive playback_failing" "currentSettings playback_failing \<noteq> None" "trace playback_failing = []"
    "\<not> blank (transcription_text ?tr)"
    "needsTranslation (transcription_text ?tr) (target ?d)"
    by code_simp+
  have "fst (transcription_stage [] playback_failing) = Inr ?tr" by code_simp
  then have be1: "transcription_stage [] playback_failing = (Inr ?tr, b1)"
    by (simp add: b1_def prod_eq_iff)
  have be2: "currentSettings b1 = Some ?cs" unfolding b1_def by code_simp
  have "fst (translation_stage ?tr ?d b1) = Inr ?tl" unfolding b1_def by code_simp
  then have be3: "translation_stage ?tr ?d b1 = (Inr ?tl, b2)"
    by (simp add: b2_def prod_eq_iff)
  have "fst (synthesis_stage ?tl ?d b2) = Inr ?buf" unfolding b2_def b1_def by code_simp
  then have be4: "synthesis_stage ?tl ?d b2 = (Inr ?buf, b3)"
    by (simp add: b3_def prod_eq_iff)
  have be5: "currentSettings b3 = Some ?cs"
    unfolding b3_def b2_def b1_def by code_simp
  have "fst (playAudio ?buf (volume ?cs) b3) = Inl ?err"
    unfolding b3_def b2_def b1_def by code_simp
  then have be6: "playAudio ?buf (volume ?cs) b3 = (Inl ?err, b4)"
    by (simp add: b4_def prod_eq_iff)

  note good =
    segment_delivery [OF ae0(1,2) ae1 ae0(4) ae2 ae0(5) ae3 ae4 ae5 ae6, unfolded sum.case]
  note bad =
    segment_delivery [OF be0(1,2) be1 be0(4) be2 be0(5) be3 be4 be5 be6, unfolded sum.case]
  show ?thesis
    using good bad ae0(3) be0(3) by auto
qed

lemma playback_failing_trace:
  "trace (snd (processAudioChunk [] playback_failing)) =
     [Console LError ''Error playing audio:'' (Some (Error ''Unable to decode audio data'')),
      ErrorLogged ''processAudioChunk''
        (Error ''Audio playback failed: Unable to decode audio data''),
      Console LError ''Translation Pipeline API error:''
        (Some (Error ''Audio playback failed: Unable to decode audio data'')),
      TRANSLATION_ERROR ''An unexpected error occurred. Please try again'']"
  by code_simp

lemma playback_failing_history:
  "map role (conversationHistory (translationAPI (snd (processAudioChunk [] playback_failing)))) =
     [''user'', ''assistant'']"
  by code_simp

text \<open>
  Claim C1 as stated fails: the backend transcribes, translates (the pair enters the
  conversation history) and synthesizes, the loudspeaker fails, and the segment ends with
  an error event and no success event.
\<close>

theorem playback_failure_counterexample:
  "trace (snd (processAudioChunk [] playback_failing)) =
     [Console LError ''Error playing audio:'' (Some (Error ''Unable to decode audio data'')),
      ErrorLogged ''processAudioChunk''
        (Error ''Audio playback failed: Unable to decode audio data''),
      Console LError ''Translation Pipeline API error:''
        (Some (Error ''Audio playback failed: Unable to decode audio data'')),
      TRANSLATION_ERROR ''An unexpected error occurred. Please try again''] \<and>
   map role (conversationHistory (translationAPI (snd (processAudioChunk [] playback_failing)))) =
     [''user'', ''assistant'']"
  by (simp add: playback_failing_trace playback_failing_history)

section \<open>Authentication errors and the retrier\<close>

lemma unauthorized_run:
  "length (net_transcribe (snd (processAudioChunk [] unauthorized_backend))) = 1"
  "waits (trace (snd (processAudioChunk [] unauthorized_backend))) = [1000, 2000, 4000]"
  "error_events (trace (snd (processAudioChunk [] unauthorized_backend))) =
     [''Please check your API keys in the extension settings'']"
  "results (trace (snd (processAudioChunk [] unauthorized_backend))) = []"
  by code_simp+

text \<open>
  Claim C3 does not hold of the code. Against a backend that answers every transcription
  request with 401, one segment consumes four of the five answers on offer: the request
  is made four times, with waits of 1000, 2000 and 4000 ms between the attempts, before
  the error reaches the coordinator and is reported as a credentials problem. The
  strategy table says zero retries for \<open>AUTH_ERROR\<close>, but the retrier never reads it.
\<close>

theorem auth_error_is_retried:
  "length (net_transcribe unauthorized_backend) = 5 \<and>
   length (net_transcribe (snd (processAudioChunk [] unauthorized_backend))) = 1 \<and>
   waits (trace (snd (processAudioChunk [] unauthorized_backend))) = [1000, 2000, 4000] \<and>
   error_events (trace (snd (processAudioChunk [] unauthorized_backend))) =
     [''Please check your API keys in the extension settings''] \<and>
   info_type (classify_api_error
      (Error ''Transcription failed: Backend API error: 401 - Invalid API key'')) =
     ''AUTH_ERROR'' \<and>
   strategy_maxRetries (getRetryStrategy ''AUTH_ERROR'') = 0"
proof -
  have "length (net_transcribe unauthorized_backend) = 5"
    by (simp add: unauthorized_backend_def)
  then show ?thesis
    by (simp add: unauthorized_run classify_api_error_def Error_def getRetryStrategy_def)
qed

theorem auth_error_is_retried_witness:
  "waits (trace (snd (processAudioChunk [] unauthorized_backend))) \<noteq> []"
  using auth_error_is_retried by simp

section \<open>The direction of translation\<close>

text \<open>
  Claim C6. A detected language among \<open>ar\<close>, \<open>fa\<close>, \<open>tr\<close>, \<open>he\<close>, \<open>ku\<close> is translated to
  English; detected English is translated to the configured source language; any other
  detected language leaves the configured pair as it is.
\<close>

theorem determineTranslationDirection_rule:
  "(d \<in> {''ar'', ''fa'', ''tr'', ''he'', ''ku''} \<longrightarrow>
      determineTranslationDirection cs d t = \<lparr>source = d, target = ''en''\<rparr>) \<and>
   (d = ''en'' \<longrightarrow>
      determineTranslationDirection cs d t = \<lparr>source = ''en'', target = sourceLanguage cs\<rparr>) \<and>
   (d \<notin> {''ar'', ''fa'', ''tr'', ''he'', ''ku'', ''en''} \<longrightarrow>
      determineTranslationDirection cs d t =
        \<lparr>source = sourceLanguage cs, target = targetLanguage cs\<rparr>)"
  by (auto simp add: determineTranslationDirection_def)

theorem determineTranslationDirection_rule_witness:
  "determineTranslationDirection DEFAULT_SETTINGS ''fa'' shalom =
     \<lparr>source = ''fa'', target = ''en''\<rparr> \<and>
   determineTranslationDirection (DEFAULT_SETTINGS\<lparr>sourceLanguage := ''ar''\<rparr>) ''en'' shalom =
     \<lparr>source = ''en'', target = ''ar''\<rparr> \<and>
   determineTranslationDirection (DEFAULT_SETTINGS\<lparr>targetLanguage := ''tr''\<rparr>) ''de'' shalom =
     \<lparr>source = ''ar'', target = ''tr''\<rparr>"
  using determineTranslationDirection_rule [of "''fa''" DEFAULT_SETTINGS shalom]
    determineTranslationDirection_rule
      [of "''en''" "DEFAULT_SETTINGS\<lparr>sourceLanguage := ''ar''\<rparr>" shalom]
    determineTranslationDirection_rule
      [of "''de''" "DEFAULT_SETTINGS\<lparr>targetLanguage := ''tr''\<rparr>" shalom]
  by (simp add: DEFAULT_SETTINGS_def)

section \<open>Script detection\<close>

lemma hebrew_not_arabic:
  "0x0590 \<le> c \<Longrightarrow> c \<le> 0x05FF \<Longrightarrow> \<not> arabic_script (c :: code_unit)"
  by (auto simp add: arabic_script_def word_le_nat_alt)

lemma hebrew_not_turkish:
  "0x0590 \<le> c \<Longrightarrow> c \<le> 0x05FF \<Longrightarrow> \<not> turkish_specific (c :: code_unit)"
  by (auto simp add: turkish_specific_def)

text \<open>
  Claim C7 does not hold of the code. The test for Hebrew code units sits inside the
  branch for Arabic-script text, so a text made of Hebrew-block code units only never
  reaches it: it falls through to the default and is detected as English.
\<close>

theorem detectLanguage_hebrew_only:
  "t \<noteq> [] \<Longrightarrow> \<forall>c\<in>set t. 0x0590 \<le> c \<and> c \<le> 0x05FF \<Longrightarrow> detectLanguage t = ''en''"
  by (auto simp add: detectLanguage_def list_ex_iff hebrew_not_arabic hebrew_not_turkish)

theorem detectLanguage_hebrew_only_witness: "detectLanguage shalom = ''en''"
  using detectLanguage_hebrew_only [of shalom] by (simp add: shalom_def)

section \<open>When translation is skipped\<close>

lemma trim_empty_iff: "trim t = [] \<longleftrightarrow> list_all is_space t"
proof
  assume "trim t = []"
  then have d: "dropWhile is_space (rev (dropWhile is_space t)) = []" by (simp add: trim_def)
  show "list_all is_space t"
  proof (cases "dropWhile is_space t")
    case Nil
    then show ?thesis by (simp add: dropWhile_eq_Nil_conv list_all_iff)
  next
    case (Cons c cs)
    then have "\<not> is_space c" using hd_dropWhile [of is_space t] by simp
    moreover have "is_space c" using d Cons by (simp add: dropWhile_eq_Nil_conv)
    ultimately show ?thesis by simp
  qed
next
  assume "list_all is_space t"
  then have e: "dropWhile is_space t = []" by (simp add: dropWhile_eq_Nil_conv list_all_iff)
  show "trim t = []" unfolding trim_def e by simp
qed

lemma blank_iff: "blank t \<longleftrightarrow> list_all is_space t"
  by (auto simp add: blank_def trim_empty_iff)

lemma space_is_english: "is_space c \<Longrightarrow> english_char c"
  by (simp add: english_char_def)

text \<open>
  Claim C8, as amended. \<open>needsTranslation\<close> is false exactly when the text is empty or all
  whitespace, or the target is \<open>en\<close> and every code unit of the text is a letter
  \<open>a-z\<close>/\<open>A-Z\<close>, whitespace, or one of \<open>. , ! ? ; : ' " ( ) -\<close>. After a non-empty
  transcription the coordinator goes on to translation, synthesis, playback and the result
  event exactly when it is true for the resolved target language; when it is false the
  segment ends there, with the state (and the trace) as it was.
\<close>

theorem needsTranslation_policy:
  "(\<not> needsTranslation t tgt \<longleftrightarrow>
      list_all is_space t \<or> (tgt = ''en'' \<and> list_all english_char t)) \<and>
   (currentSettings s = Some cs \<longrightarrow>
      translate_segment tr s =
        (if needsTranslation (transcription_text tr) (target (resolve_languages cs tr))
         then translate_and_deliver tr (resolve_languages cs tr) s
         else (Inr (), s)))"
  by (auto simp add: needsTranslation_def blank_iff englishPattern_def translate_segment_def Let_def)

lemma english_greeting: "list_all english_char (ascii ''Hello, how are you?'')"
  by (simp add: ascii_def english_char_def is_space_def)

lemma room_101:
  "\<not> list_all is_space (ascii ''Room 101'')" "\<not> list_all english_char (ascii ''Room 101'')"
  "ascii_only (ascii ''Room 101'')"
  by (simp_all add: ascii_def english_char_def is_space_def ascii_only_def)

theorem needsTranslation_policy_witness:
  "\<not> needsTranslation (ascii ''Hello, how are you?'') ''en'' \<and>
   needsTranslation (ascii ''Room 101'') ''en'' \<and>
   translate_segment
     \<lparr>transcription_text = ascii ''Hello, how are you?'', language = ''en'',
      transcription_confidence = 1\<rparr> live_service =
     (Inr (), live_service)"
proof -
  let ?tr = "\<lparr>transcription_text = ascii ''Hello, how are you?'', language = ''en'',
               transcription_confidence = 1\<rparr>"
  let ?cs = "DEFAULT_SETTINGS\<lparr>mockMode := False\<rparr>"
  have cs: "currentSettings live_service = Some ?cs"
    by (simp add: live_service_def)
  have tgt: "target (resolve_languages ?cs ?tr) = ''en''"
    by (simp add: resolve_languages_def DEFAULT_SETTINGS_def)
  show ?thesis
    using needsTranslation_policy [of "ascii ''Hello, how are you?''" "''en''" live_service ?cs ?tr]
      needsTranslation_policy [of "ascii ''Room 101''" "''en''" live_service ?cs ?tr]
      english_greeting room_101 cs tgt
    by simp
qed

text \<open>
  Claim C8 as stated fails on ASCII text outside that character class: \<open>Room 101\<close> is
  ASCII-only and not blank, the target is \<open>en\<close>, and translation is still needed.
\<close>

theorem ascii_text_counterexample:
  "ascii_only (ascii ''Room 101'') \<and> \<not> blank (ascii ''Room 101'') \<and>
   needsTranslation (ascii ''Room 101'') ''en''"
  by (simp add: room_101 needsTranslation_def blank_iff englishPattern_def)

section \<open>The conversation history\<close>



lemma addToHistory_max [simp]:
  "maxHistoryLength (addToHistory ot tt src tgt api) = maxHistoryLength api"
  by (simp add: addToHistory_def Let_def)













section \<open>The health check's threshold\<close>

text \<open>No request to the service changes the error handler: \<open>trackError\<close> and
  \<open>resetErrorCount\<close> are the only functions that write \<open>errorCounts\<close>, and nothing calls
  them.\<close>

lemma with_capture_errorHandler [simp]: "errorHandler (with_capture f s) = errorHandler s"
  by (simp add: with_capture_def)

lemma sleep_errorHandler [simp]: "errorHandler (sleep ms s) = errorHandler s"
  by (simp add: sleep_def)

lemma clients_errorHandler [simp]:
  "errorHandler (snd (transcribe a l m s)) = errorHandler s"
  "errorHandler (snd (translate t src tgt m s)) = errorHandler s"
  "errorHandler (snd (synthesize t l m s)) = errorHandler s"
  "errorHandler (snd (playAudio b v s)) = errorHandler s"
  by (auto simp add: transcribe_def getMockTranscription_def fetch_transcribe_def
      translate_def getMockTranslation_def fetch_translate_def Let_def
      synthesize_def getMockAudio_def fetch_synthesize_def playAudio_def playback_failed_def
      split: prod.splits sum.splits list.splits option.splits if_splits)

lemma retry_loop_errorHandler:
  "(\<And>s. errorHandler (snd (fn s)) = errorHandler s) \<Longrightarrow>
   errorHandler (snd (retry_loop fn ctx m k l s)) = errorHandler s"
proof (induction fn ctx m k l s rule: retry_loop.induct)
  case (1 fn ctx m k l s)
  note keep = "1.prems"
  show ?case
  proof (cases "int k \<le> m")
    case False
    then show ?thesis by (simp add: retry_loop_exhausted)
  next
    case True
    obtain r s1 where f: "fn s = (r, s1)" by (cases "fn s")
    have k1: "errorHandler s1 = errorHandler s" using keep [of s] f by simp
    show ?thesis
    proof (cases r)
      case (Inr v)
      then show ?thesis using f True k1 by (simp add: retry_loop_success)
    next
      case (Inl e)
      show ?thesis
      proof (cases "int k = m")
        case last: True
        then show ?thesis using f Inl k1 by (simp add: retry_loop_fail_last)
      next
        case more: False
        have lt: "int k < m" using True more by simp
        have "errorHandler (snd (retry_loop fn ctx m (k + 1) (Thrown e) (retry_wait ctx m k e s1))) =
              errorHandler (retry_wait ctx m k e s1)"
          using "1.IH" [OF True f [symmetric] Inl more keep] .
        then show ?thesis
          using f Inl lt k1 by (simp add: retry_loop_fail_more)
      qed
    qed
  qed
qed

lemma retryWithBackoff_default_errorHandler:
  "(\<And>s. errorHandler (snd (fn s)) = errorHandler s) \<Longrightarrow>
   errorHandler (snd (retryWithBackoff_default fn ctx s)) = errorHandler s"
  by (simp add: retryWithBackoff_default_def retryWithBackoff_def retry_loop_errorHandler)

lemma stages_errorHandler [simp]:
  "errorHandler (snd (transcription_stage a s)) = errorHandler s"
  "errorHandler (snd (translation_stage tr d s)) = errorHandler s"
  "errorHandler (snd (synthesis_stage trl d s)) = errorHandler s"
  unfolding transcription_stage_def translation_stage_def synthesis_stage_def
  by (intro retryWithBackoff_default_errorHandler; simp split: option.splits)+

lemma deliver_errorHandler [simp]:
  "errorHandler (snd (deliver tr trl src tgt b s)) = errorHandler s"
proof -
  have p: "\<And>v r s'. playAudio b v s = (r, s') \<Longrightarrow> errorHandler s' = errorHandler s"
  proof -
    fix v r s'
    assume "playAudio b v s = (r, s')"
    then have "s' = snd (playAudio b v s)" by simp
    then show "errorHandler s' = errorHandler s" by simp
  qed
  show ?thesis
    by (auto simp add: deliver_def sendResultsToContentScript_def dest: p
        split: option.splits prod.splits sum.splits)
qed

lemma translate_and_deliver_errorHandler [simp]:
  "errorHandler (snd (translate_and_deliver tr d s)) = errorHandler s"
proof -
  obtain r1 s1 where r1: "translation_stage tr d s = (r1, s1)"
    by (cases "translation_stage tr d s")
  have k1: "errorHandler s1 = errorHandler s"
    using stages_errorHandler(2) [of tr d s] r1 by simp
  show ?thesis
  proof (cases r1)
    case (Inl t)
    then show ?thesis using r1 k1 by (simp add: translate_and_deliver_stages)
  next
    case (Inr trl)
    obtain r2 s2 where r2: "synthesis_stage trl d s1 = (r2, s2)"
      by (cases "synthesis_stage trl d s1")
    have k2: "errorHandler s2 = errorHandler s"
      using stages_errorHandler(3) [of trl d s1] r2 k1 by simp
    show ?thesis
      using r1 Inr r2 k1 k2 by (cases r2) (simp_all add: translate_and_deliver_stages)
  qed
qed

lemma translate_segment_errorHandler [simp]:
  "errorHandler (snd (translate_segment tr s)) = errorHandler s"
  by (simp add: translate_segment_def Let_def split: option.splits)

lemma process_segment_errorHandler [simp]:
  "errorHandler (snd (process_segment a s)) = errorHandler s"
proof -
  obtain r1 s1 where r1: "transcription_stage a s = (r1, s1)"
    by (cases "transcription_stage a s")
  have k1: "errorHandler s1 = errorHandler s"
    using stages_errorHandler(1) [of a s] r1 by simp
  show ?thesis
    using r1 k1 by (cases r1) (simp_all add: process_segment_stages)
qed

lemma pipeline_failed_errorHandler [simp]:
  "errorHandler (snd (pipeline_failed t s)) = errorHandler s"
  by (simp add: pipeline_failed_def handleApiError_def logError_def
      sendErrorToContentScript_def split: thrown.splits)

lemma processAudioChunk_errorHandler [simp]:
  "errorHandler (snd (processAudioChunk a s)) = errorHandler s"
proof (cases "process_segment a s")
  case (Pair r s1)
  then have "errorHandler s1 = errorHandler s"
    using process_segment_errorHandler [of a s] by simp
  then show ?thesis
    using Pair by (cases r) (simp_all add: processAudioChunk_def)
qed

lemma stopTranslation_errorHandler [simp]: "errorHandler (stopTranslation s) = errorHandler s"
  by (simp add: stopTranslation_def cleanup_def stopCapture_def Let_def with_capture_def
      split: option.splits)

lemma startTranslation_errorHandler [simp]:
  "errorHandler (snd (startTranslation s)) = errorHandler s"
  by (simp add: startTranslation_def initialize_def startCapture_def onAudioChunk_def
      start_failed_def handleAudioError_def logError_def Let_def with_capture_def
      split: option.splits prod.splits list.splits)

lemma restartTranslation_errorHandler [simp]:
  "errorHandler (restartTranslation s) = errorHandler s"
proof (cases "startTranslation (sleep 1000 (stopTranslation s))")
  case (Pair r s1)
  then have "errorHandler s1 = errorHandler s"
    using startTranslation_errorHandler [of "sleep 1000 (stopTranslation s)"] by simp
  then show ?thesis using Pair by (cases r) (simp_all add: restartTranslation_def)
qed

lemma healthCheck_errorHandler [simp]: "errorHandler (healthCheck s) = errorHandler s"
  by (simp add: healthCheck_def sendErrorToContentScript_def split: option.splits)

lemma perform_errorHandler [simp]: "errorHandler (perform x s) = errorHandler s"
proof (cases x)
  case START_TRANSLATION
  obtain r s1 where r: "startTranslation s = (r, s1)" by (cases "startTranslation s")
  then have "errorHandler s1 = errorHandler s"
    using startTranslation_errorHandler [of s] by simp
  then show ?thesis using START_TRANSLATION r by (cases r) simp_all
qed simp_all

lemma run_errorHandler: "errorHandler (run activities s) = errorHandler s"
  by (induction activities arbitrary: s) simp_all

lemma fresh_counters: "\<not> isFeatureDisabled new_ErrorHandler errorType context"
  by (simp add: isFeatureDisabled_def get_count_def new_ErrorHandler_def)

lemma busy_microphone_run:
  "length (audio_errors (trace six_failed_starts)) = 6"
  "\<not> isActive six_failed_starts"
  "isActive seven_starts"
  "isActive (perform HEALTH_CHECK seven_starts)"
  "trace (perform HEALTH_CHECK seven_starts) = trace seven_starts"
  "error_events (trace (perform HEALTH_CHECK seven_starts)) = []"
  by code_simp+

lemma counted_failures:
  "isFeatureDisabled (errorHandler six_audio_errors) ''audio_error'' ''health_check''"
  "\<not> isActive (healthCheck six_audio_errors)"
  "error_events (trace (healthCheck six_audio_errors)) =
     [''Too many audio errors. Please check your microphone settings.'']"
  by code_simp+

text \<open>
  Claim C2 does not hold of the code. Whatever the service is asked to do, in whatever
  state, its error handler is afterwards what it was before: no failure is ever counted,
  and from the service as constructed no pair is ever disabled. With a microphone that
  another application holds, six \<open>START_TRANSLATION\<close> messages in a row fail, each with an
  audio error handed to \<open>handleAudioError\<close> under the context \<open>startTranslation\<close>; the
  seventh starts the pipeline; the health check that follows finds no counter above 5,
  leaves the pipeline running and sends no error event. Had \<open>trackError\<close> been called
  six times for the pair \<open>(audio_error, health_check)\<close>, the same check would have stopped
  the pipeline and sent one error event.
\<close>

theorem failures_never_counted:
  "errorHandler (run activities s) = errorHandler s \<and>
   \<not> isFeatureDisabled (errorHandler (run activities busy_microphone)) errorType context \<and>
   length (audio_errors (trace six_failed_starts)) = 6 \<and>
   \<not> isActive six_failed_starts \<and>
   isActive seven_starts \<and>
   isActive (perform HEALTH_CHECK seven_starts) \<and>
   trace (perform HEALTH_CHECK seven_starts) = trace seven_starts \<and>
   error_events (trace (perform HEALTH_CHECK seven_starts)) = [] \<and>
   isFeatureDisabled (errorHandler six_audio_errors) ''audio_error'' ''health_check'' \<and>
   \<not> isActive (healthCheck six_audio_errors) \<and>
   error_events (trace (healthCheck six_audio_errors)) =
     [''Too many audio errors. Please check your microphone settings.'']"
proof -
  have kept: "errorHandler (run activities s) = errorHandler s"
    by (rule run_errorHandler)
  have "errorHandler (run activities busy_microphone) = new_ErrorHandler"
    by (simp add: run_errorHandler busy_microphone_def new_BackgroundService_def)
  then have fresh:
    "\<not> isFeatureDisabled (errorHandler (run activities busy_microphone)) errorType context"
    by (simp add: fresh_counters)
  show ?thesis
    using kept fresh busy_microphone_run counted_failures by blast
qed

theorem failures_never_counted_witness:
  "errorHandler (run [START_TRANSLATION, AUDIO_CHUNK [], HEALTH_CHECK] live_service) =
     errorHandler live_service \<and>
   isActive (perform HEALTH_CHECK seven_starts) \<and>
   error_events (trace (perform HEALTH_CHECK seven_starts)) = []"
  using failures_never_counted
    [where activities = "[START_TRANSLATION, AUDIO_CHUNK [], HEALTH_CHECK]" and s = live_service]
  by blast

section \<open>Settings changed while a segment is in flight\<close>






lemma deliver_all_Nil [simp]: "deliver_all [] s = s"
  by (simp add: deliver_all_def)











end
